theory Spec2Isabelle
  imports Main
begin

section \<open>Syntax tree, paths, scopes and bindings\<close>

text \<open>
  The plugin works on the host's syntax tree through path objects. A path is an object
  with an identity of its own: it keeps denoting the same slot of the tree while its
  siblings are inserted or removed, and while the node in the slot is replaced. The model
  therefore addresses every path by a number and keeps the tree as a store from paths to
  nodes; the children of a node are given by their paths. What the host computes from the
  tree (the parent of a path, the scope of a path, the bindings and the free names of a
  scope) is stored beside the nodes, as the host caches it.
\<close>

type_synonym name = string
type_synonym node_path = nat
type_synonym scope_id = nat

datatype position = Position (line: nat) (column: nat)

datatype source_location = SourceLocation (loc_start: position) (loc_end: position)

datatype template_element = TemplateElement (raw: string) (loc: "source_location option")

text \<open>
  The node types the plugin tests for or builds. The names of an import specifier are kept
  in the node (\<open>local\<close>, and \<open>imported\<close> when it is an identifier and not a string);
  every other child is a path. \<open>Other\<close> stands for any node type the plugin never
  tests for, with its children.
\<close>

datatype node =
    Program "node_path list"
  | ImportDeclaration "node_path list" string
  | ImportSpecifier name "name option"
  | ImportDefaultSpecifier name
  | ImportNamespaceSpecifier name
  | VariableDeclaration "node_path list"
  | VariableDeclarator node_path "node_path option"
  | ObjectPattern "node_path list"
  | ObjectProperty node_path node_path
  | RestElement node_path
  | Identifier name
  | StringLiteral string
  | CallExpression node_path "node_path list"
  | MemberExpression node_path node_path
  | TaggedTemplateExpression node_path "template_element list" "node_path list"
  | JSXElement node_path "node_path list" "node_path option"
  | JSXOpeningElement node_path "node_path list"
  | JSXClosingElement node_path
  | JSXAttribute node_path "node_path option"
  | JSXExpressionContainer node_path
  | JSXIdentifier name
  | Other string "node_path list"

record binding =
  kind :: string
  path :: node_path

text \<open>
  The state of one run of the plugin on one file. \<open>nodes\<close> is the tree; a path whose
  node is \<open>None\<close> has been removed. \<open>ancestors\<close> lists, for a path, its parent path, the
  parent of that, and so on up to the root. \<open>scope\<close> is the scope of a path,
  \<open>parentScopes\<close> the enclosing scopes of a scope from the nearest outwards,
  \<open>bindings\<close> the bindings a scope owns and \<open>globals\<close> the free names recorded in it.
  \<open>referenced\<close> is the host's \<open>isReferencedIdentifier\<close> and \<open>bindingIdentifiers\<close> gives
  the names a node declares. \<open>tagsToRemoveImportsFrom\<close> is the plugin's own set, kept in
  insertion order, and \<open>fresh\<close> is the next unused path number, for the nodes the
  plugin builds.
\<close>

record state =
  nodes :: "node_path \<rightharpoonup> node"
  ancestors :: "node_path \<Rightarrow> node_path list"
  scope :: "node_path \<Rightarrow> scope_id"
  parentScopes :: "scope_id \<Rightarrow> scope_id list"
  bindings :: "scope_id \<Rightarrow> name \<rightharpoonup> binding"
  globals :: "scope_id \<Rightarrow> name \<Rightarrow> bool"
  referenced :: "node_path \<Rightarrow> bool"
  bindingIdentifiers :: "node_path \<Rightarrow> name list"
  tagsToRemoveImportsFrom :: "node_path list"
  fresh :: node_path

section \<open>Faults\<close>

text \<open>
  The three faults of the plugin, the fault of the external query parser, and the two
  faults the runtime raises by itself in this code: \<open>TypeError\<close> on a property read
  of \<open>undefined\<close>, \<open>SyntaxError\<close> from \<open>JSON.parse\<close>.
\<close>

datatype error =
    StringInterpolationNotAllowedError position position
  | EmptyGraphQLTagError "source_location option"
  | GraphQLSyntaxError string error "source_location option"
  | ParserError string
  | TypeError
  | SyntaxError

datatype document = Document (definitions: "string list")

record IGraphQLTag =
  ast :: document
  text' :: string
  hash :: nat
  isGlobal :: bool

section \<open>Node tests\<close>

fun node_name :: "node option \<Rightarrow> name option" where
  "node_name (Some (Identifier x)) = Some x"
| "node_name (Some (JSXIdentifier x)) = Some x"
| "node_name _ = None"

fun isIdentifier :: "node option \<Rightarrow> bool" where
  "isIdentifier (Some (Identifier x)) = True"
| "isIdentifier _ = False"

fun isMemberExpression :: "node option \<Rightarrow> bool" where
  "isMemberExpression (Some (MemberExpression obj prop)) = True"
| "isMemberExpression _ = False"

fun isImportSpecifier :: "node option \<Rightarrow> bool" where
  "isImportSpecifier (Some (ImportSpecifier l i)) = True"
| "isImportSpecifier _ = False"

fun isImportNamespaceSpecifier :: "node option \<Rightarrow> bool" where
  "isImportNamespaceSpecifier (Some (ImportNamespaceSpecifier l)) = True"
| "isImportNamespaceSpecifier _ = False"

fun isObjectProperty :: "node option \<Rightarrow> bool" where
  "isObjectProperty (Some (ObjectProperty k v)) = True"
| "isObjectProperty _ = False"

fun isVariableDeclaration :: "node option \<Rightarrow> bool" where
  "isVariableDeclaration (Some (VariableDeclaration ds)) = True"
| "isVariableDeclaration _ = False"

fun importSource :: "node option \<Rightarrow> string option" where
  "importSource (Some (ImportDeclaration specifiers source)) = Some source"
| "importSource _ = None"

fun imported :: "node option \<Rightarrow> name option" where
  "imported (Some (ImportSpecifier l i)) = i"
| "imported _ = None"

fun get_object :: "node option \<Rightarrow> node_path option" where
  "get_object (Some (MemberExpression obj prop)) = Some obj"
| "get_object _ = None"

fun get_property :: "node option \<Rightarrow> node_path option" where
  "get_property (Some (MemberExpression obj prop)) = Some prop"
| "get_property _ = None"

fun get_key :: "node option \<Rightarrow> node_path option" where
  "get_key (Some (ObjectProperty k v)) = Some k"
| "get_key _ = None"

definition parentPath :: "state \<Rightarrow> node_path \<Rightarrow> node_path option" where
  "parentPath f p = (case ancestors f p of [] \<Rightarrow> None | q # qs \<Rightarrow> Some q)"

text \<open>\<open>scope.getBinding\<close> and \<open>scope.hasGlobal\<close> look through the scope and its parents.\<close>

definition owner :: "state \<Rightarrow> scope_id \<Rightarrow> name \<Rightarrow> scope_id option" where
  "owner f s n = List.find (\<lambda>s'. bindings f s' n \<noteq> None) (s # parentScopes f s)"

definition getBinding :: "state \<Rightarrow> scope_id \<Rightarrow> name \<Rightarrow> binding option" where
  "getBinding f s n = (case owner f s n of None \<Rightarrow> None | Some s' \<Rightarrow> bindings f s' n)"

definition hasGlobal :: "state \<Rightarrow> scope_id \<Rightarrow> name \<Rightarrow> bool" where
  "hasGlobal f s n = list_ex (\<lambda>s'. globals f s' n) (s # parentScopes f s)"

definition node_at :: "state \<Rightarrow> node_path option \<Rightarrow> node option" where
  "node_at f p = (case p of None \<Rightarrow> None | Some q \<Rightarrow> nodes f q)"

section \<open>Tag classification\<close>

definition isGlobalIdentifier :: "state \<Rightarrow> node_path \<Rightarrow> bool" where
  "isGlobalIdentifier f tag =
     (nodes f tag = Some (Identifier ''graphql'') \<and> hasGlobal f (scope f tag) ''graphql'')"

text \<open>
  \<open>init.arguments[0].value === `gatsby`\<close> for the initialiser of a declarator that is a call
  of an identifier named \<open>require\<close>: reading \<open>value\<close> of a missing first argument raises.
\<close>

fun requiresGatsby :: "state \<Rightarrow> node option \<Rightarrow> error + bool" where
  "requiresGatsby f (Some (CallExpression callee arguments)) =
     (if nodes f callee = Some (Identifier ''require'')
      then (case arguments of
              [] \<Rightarrow> Inl TypeError
            | a # as \<Rightarrow> Inr (nodes f a = Some (StringLiteral ''gatsby'')))
      else Inr False)"
| "requiresGatsby f _ = Inr False"

text \<open>
  \<open>properties.find(path => path.get(`value`).node.name === name)\<close>: the first property
  whose value is named \<open>name\<close>. A rest element has no \<open>value\<close>, and reading the name of
  its missing node raises.
\<close>

fun findProperty :: "state \<Rightarrow> name \<Rightarrow> node_path list \<Rightarrow> error + node_path option" where
  "findProperty f name [] = Inr None"
| "findProperty f name (p # ps) =
     (case nodes f p of
        Some (ObjectProperty k v) \<Rightarrow>
          (if node_name (nodes f v) = Some name then Inr (Some p) else findProperty f name ps)
      | _ \<Rightarrow> Inl TypeError)"

definition getTagImport :: "state \<Rightarrow> node_path \<Rightarrow> error + node_path option" where
  "getTagImport f tag =
     (case node_name (nodes f tag) of
        None \<Rightarrow> Inr None
      | Some name \<Rightarrow>
         (case getBinding f (scope f tag) name of
            None \<Rightarrow> Inr None
          | Some binding \<Rightarrow>
             (if kind binding = ''module'' \<and>
                 importSource (node_at f (parentPath f (path binding))) = Some ''gatsby''
              then Inr (Some (path binding))
              else
                (case nodes f (path binding) of
                   Some (VariableDeclarator ident init) \<Rightarrow>
                     (case requiresGatsby f (node_at f init) of
                        Inl e \<Rightarrow> Inl e
                      | Inr False \<Rightarrow> Inr None
                      | Inr True \<Rightarrow>
                         (case nodes f ident of
                            Some (ObjectPattern properties) \<Rightarrow> findProperty f name properties
                          | _ \<Rightarrow> Inr (Some ident)))
                 | _ \<Rightarrow> Inr None))))"

definition isGraphqlTag :: "state \<Rightarrow> node_path \<Rightarrow> error + bool" where
  "isGraphqlTag f tag =
     (let isExpression = isMemberExpression (nodes f tag);
          identifier = (case get_object (nodes f tag) of Some obj \<Rightarrow> obj | None \<Rightarrow> tag)
      in case getTagImport f identifier of
           Inl e \<Rightarrow> Inl e
         | Inr None \<Rightarrow> Inr (isGlobalIdentifier f tag)
         | Inr (Some importPath) \<Rightarrow>
            (if isExpression \<and>
                (isImportNamespaceSpecifier (nodes f importPath) \<or> isIdentifier (nodes f importPath))
             then Inr (node_name (node_at f (get_property (nodes f tag))) = Some ''graphql'')
             else if isImportSpecifier (nodes f importPath)
             then Inr (imported (nodes f importPath) = Some ''graphql'')
             else if isObjectProperty (nodes f importPath)
             then Inr (node_name (node_at f (get_key (nodes f importPath))) = Some ''graphql'')
             else Inr False))"

section \<open>Extraction and validation of the query\<close>

text \<open>
  The constructor of \<open>StringInterpolationNotAllowedError\<close> copies both positions with
  \<open>JSON.parse(JSON.stringify(...))\<close>. For a position that is \<open>undefined\<close> (the segment
  has no \<open>loc\<close>) \<open>JSON.stringify\<close> gives \<open>undefined\<close> and \<open>JSON.parse\<close> raises
  \<open>SyntaxError\<close>, so the constructor does not complete.
\<close>

definition newStringInterpolationNotAllowedError ::
  "position option \<Rightarrow> position option \<Rightarrow> error" where
  "newStringInterpolationNotAllowedError interpolationStart interpolationEnd =
     (case interpolationStart of
        None \<Rightarrow> SyntaxError
      | Some s \<Rightarrow>
         (case interpolationEnd of
            None \<Rightarrow> SyntaxError
          | Some e \<Rightarrow> StringInterpolationNotAllowedError s e))"

text \<open>
  The body of the \<open>try\<close> block: the external parser either raises or returns a document,
  and an empty document makes the body raise \<open>EmptyGraphQLTagError\<close>.
\<close>

definition tryParse ::
  "(string \<Rightarrow> string + document) \<Rightarrow> string \<Rightarrow> source_location option \<Rightarrow> error + document" where
  "tryParse parse txt l =
     (case parse txt of
        Inl message \<Rightarrow> Inl (ParserError message)
      | Inr d \<Rightarrow> if length (definitions d) = 0 then Inl (EmptyGraphQLTagError l) else Inr d)"

text \<open>
  \<open>getGraphQLTag\<close>. The hash function \<open>murmurhash\<close> (module \<open>./murmur\<close>) and the
  query parser \<open>graphql.parse\<close> are parameters. The empty record \<open>{}\<close> is \<open>None\<close>.
  Whatever the \<open>try\<close> block raises is caught and wrapped in \<open>GraphQLSyntaxError\<close>.
\<close>

definition getGraphQLTag ::
  "(string \<Rightarrow> nat \<Rightarrow> nat) \<Rightarrow> (string \<Rightarrow> string + document) \<Rightarrow> state \<Rightarrow> node_path
     \<Rightarrow> error + IGraphQLTag option" where
  "getGraphQLTag murmurhash parse f p =
     (case nodes f p of
        Some (TaggedTemplateExpression tag quasis expressions) \<Rightarrow>
          (let isGlobal = isGlobalIdentifier f tag in
           case (if isGlobal then Inr True else isGraphqlTag f tag) of
             Inl e \<Rightarrow> Inl e
           | Inr False \<Rightarrow> Inr None
           | Inr True \<Rightarrow>
              (case quasis of
                 [] \<Rightarrow> Inl TypeError
               | [q] \<Rightarrow>
                  (let txt = raw q; h = murmurhash txt 0 in
                   case tryParse parse txt (loc q) of
                     Inl err \<Rightarrow> Inl (GraphQLSyntaxError txt err (loc q))
                   | Inr d \<Rightarrow> Inr (Some \<lparr>ast = d, text' = txt, hash = h, isGlobal = isGlobal\<rparr>))
               | q0 # q1 # qs \<Rightarrow>
                  Inl (newStringInterpolationNotAllowedError
                         (map_option loc_end (loc q0)) (map_option loc_start (loc q1)))))
      | _ \<Rightarrow> Inl TypeError)"

section \<open>The binding resolver\<close>

text \<open>
  The name a binding is an alias of: its declaring node is a declarator whose \<open>id\<close> is an
  identifier and whose \<open>init\<close> is an identifier, and the name is that of \<open>init\<close>.
\<close>

definition aliasOf :: "state \<Rightarrow> binding \<Rightarrow> name option" where
  "aliasOf f b =
     (case nodes f (path b) of
        Some (VariableDeclarator ident init) \<Rightarrow>
          (if isIdentifier (nodes f ident) \<and> isIdentifier (node_at f init)
           then node_name (node_at f init) else None)
      | _ \<Rightarrow> None)"

text \<open>
  \<open>followVariableDeclarations\<close> calls itself with whatever \<open>getBinding\<close> returns for the
  aliased name, so the argument may be \<open>undefined\<close> (\<open>None\<close>), and reading \<open>path\<close> of it
  raises. Nothing bounds the recursion: the function is partial, and \<open>None\<close> as its value
  says that the call does not return.
\<close>

partial_function (option) followVariableDeclarations ::
  "state \<Rightarrow> binding option \<Rightarrow> (error + binding) option" where
  "followVariableDeclarations f binding =
     (case binding of
        None \<Rightarrow> Some (Inl TypeError)
      | Some b \<Rightarrow>
         (case aliasOf f b of
            Some n \<Rightarrow> followVariableDeclarations f (getBinding f (scope f (path b)) n)
          | None \<Rightarrow> Some (Inr b)))"

declare followVariableDeclarations.simps [code]


section \<open>Editing the tree\<close>

datatype outcome = Normal | Thrown error

definition replaceWith :: "state \<Rightarrow> node_path \<Rightarrow> node \<Rightarrow> state" where
  "replaceWith st p nd = st\<lparr>nodes := (nodes st)(p \<mapsto> nd)\<rparr>"

text \<open>\<open>scope.removeBinding\<close>: the scope that owns the binding of the name drops it.\<close>

definition removeBinding :: "scope_id \<Rightarrow> name \<Rightarrow> state \<Rightarrow> state" where
  "removeBinding s n st =
     (case owner st s n of
        None \<Rightarrow> st
      | Some s' \<Rightarrow> st\<lparr>bindings := (bindings st)(s' := (bindings st s')(n := None))\<rparr>)"

fun removeChild :: "node_path \<Rightarrow> node \<Rightarrow> node" where
  "removeChild p (Program body) = Program (removeAll p body)"
| "removeChild p (ImportDeclaration specifiers source) = ImportDeclaration (removeAll p specifiers) source"
| "removeChild p (VariableDeclaration declarations) = VariableDeclaration (removeAll p declarations)"
| "removeChild p (ObjectPattern properties) = ObjectPattern (removeAll p properties)"
| "removeChild p (Other t cs) = Other t (removeAll p cs)"
| "removeChild p nd = nd"

text \<open>
  \<open>path.remove()\<close>: the names the node declares lose their bindings, the path leaves the
  list of its parent that holds it, and the path has no node any more. The plugin removes
  import specifiers, import declarations, object-pattern properties and variable
  declarations only, all of them members of a list of their parent.
\<close>

definition remove :: "state \<Rightarrow> node_path \<Rightarrow> state" where
  "remove st p =
     (let st1 = fold (removeBinding (scope st p)) (bindingIdentifiers st p) st;
          st2 = (case parentPath st1 p of
                   None \<Rightarrow> st1
                 | Some q \<Rightarrow>
                    (case nodes st1 q of
                       None \<Rightarrow> st1
                     | Some nd \<Rightarrow> st1\<lparr>nodes := (nodes st1)(q \<mapsto> removeChild p nd)\<rparr>))
      in st2\<lparr>nodes := (nodes st2)(p := None)\<rparr>)"

section \<open>The import pruner\<close>

definition removeVariableDeclaration :: "state \<Rightarrow> node_path \<Rightarrow> state" where
  "removeVariableDeclaration st statement =
     (case List.find (\<lambda>p. isVariableDeclaration (nodes st p)) (ancestors st statement) of
        Some declaration \<Rightarrow> remove st declaration
      | None \<Rightarrow> st)"

text \<open>
  The three tests of \<open>removeImport\<close> run one after the other, each on the tree the one
  before it left. \<open>parent.node.specifiers.length\<close> and \<open>parent.node.properties.length\<close>
  raise when the parent has no such list.
\<close>

definition removeImportSpecifier :: "state \<Rightarrow> node_path \<Rightarrow> outcome \<times> state" where
  "removeImportSpecifier st importPath =
     (if isImportSpecifier (nodes st importPath)
      then (case parentPath st importPath of
              None \<Rightarrow> (Thrown TypeError, st)
            | Some parent \<Rightarrow>
               (case nodes st parent of
                  Some (ImportDeclaration specifiers source) \<Rightarrow>
                    (if length specifiers = 1 then (Normal, remove st parent)
                     else (Normal, remove st importPath))
                | _ \<Rightarrow> (Thrown TypeError, st)))
      else (Normal, st))"

definition removeObjectProperty :: "state \<Rightarrow> node_path \<Rightarrow> outcome \<times> state" where
  "removeObjectProperty st importPath =
     (if isObjectProperty (nodes st importPath)
      then (case parentPath st importPath of
              None \<Rightarrow> (Thrown TypeError, st)
            | Some parent \<Rightarrow>
               (case nodes st parent of
                  Some (ObjectPattern properties) \<Rightarrow>
                    (if length properties = 1 then (Normal, removeVariableDeclaration st importPath)
                     else (Normal, remove st importPath))
                | _ \<Rightarrow> (Thrown TypeError, st)))
      else (Normal, st))"

definition removeImport :: "state \<Rightarrow> node_path \<Rightarrow> outcome \<times> state" where
  "removeImport st tag =
     (let identifier = (case get_object (nodes st tag) of Some obj \<Rightarrow> obj | None \<Rightarrow> tag)
      in case getTagImport st identifier of
           Inl e \<Rightarrow> (Thrown e, st)
         | Inr None \<Rightarrow> (Normal, st)
         | Inr (Some importPath) \<Rightarrow>
            (case removeImportSpecifier st importPath of
               (Thrown e, st1) \<Rightarrow> (Thrown e, st1)
             | (Normal, st1) \<Rightarrow>
                (case removeObjectProperty st1 importPath of
                   (Thrown e, st2) \<Rightarrow> (Thrown e, st2)
                 | (Normal, st2) \<Rightarrow>
                    (if isIdentifier (nodes st2 importPath)
                     then (Normal, removeVariableDeclaration st2 importPath)
                     else (Normal, st2)))))"

section \<open>The host of the plugin\<close>

text \<open>
  What the plugin takes from outside this file: the hash function \<open>murmurhash\<close> of module
  \<open>./murmur\<close>, the query parser \<open>graphql.parse\<close>, the environment variable
  \<open>NODE_ENV\<close>, the name of the compiled file, the working directory, and the functions
  \<open>join\<close>, \<open>relative\<close> and \<open>parse(...).dir\<close> of the runtime's path module. The
  module \<open>./murmur\<close> is not among the sources: \<open>murmurhash\<close> is a parameter, a function of
  the text and the seed, which is how the specification describes the hasher (no state
  of its own). The parser either raises, with a message, or returns a document.
\<close>

record host =
  murmurhash :: "string \<Rightarrow> nat \<Rightarrow> nat"
  parse :: "string \<Rightarrow> string + document"
  NODE_ENV :: "string option"
  filename :: "string option"
  cwd :: string
  nodePath_join :: "string \<Rightarrow> string \<Rightarrow> string"
  nodePath_relative :: "string \<Rightarrow> string \<Rightarrow> string"
  nodePath_dir :: "string \<Rightarrow> string"

text \<open>\<open>hash.toString()\<close>: the decimal digits of a number.\<close>

fun toString :: "nat \<Rightarrow> string" where
  "toString n =
     (if n < 10 then [''0123456789'' ! n]
      else toString (n div 10) @ [''0123456789'' ! (n mod 10)])"

declare toString.simps [simp del]

definition productionOrTest :: "host \<Rightarrow> bool" where
  "productionOrTest h =
     ((case NODE_ENV h of None \<Rightarrow> [] | Some v \<Rightarrow> v) \<in> set [''production'', ''test''])"

definition resultImportSource :: "host \<Rightarrow> string \<Rightarrow> string" where
  "resultImportSource h queryHash =
     (let shortResultPath = ''public/static/d/'' @ queryHash @ ''.json'';
          resultPath = nodePath_join h (cwd h) shortResultPath
      in case filename h of
           None \<Rightarrow> shortResultPath
         | Some fn \<Rightarrow>
            (if fn = [] then shortResultPath
             else nodePath_relative h (nodePath_dir h fn) resultPath))"

section \<open>Substituting the hash for the query\<close>

text \<open>\<open>Set.add\<close> on a set kept in insertion order.\<close>

definition add :: "node_path \<Rightarrow> node_path list \<Rightarrow> node_path list" where
  "add x xs = (if x \<in> set xs then xs else xs @ [x])"

text \<open>
  The statements that \<open>setImportForStaticQuery\<close> and the visitor of the last sweep both
  run once \<open>getGraphQLTag\<close> has returned a record: the tag of a query that is not global
  is enqueued, and the template is replaced by the string of the hash.
\<close>

definition replaceQuery :: "state \<Rightarrow> node_path \<Rightarrow> node_path \<Rightarrow> IGraphQLTag \<Rightarrow> state" where
  "replaceQuery st templatePath tag r =
     (let st1 = (if \<not> isGlobal r
                 then st\<lparr>tagsToRemoveImportsFrom := add tag (tagsToRemoveImportsFrom st)\<rparr>
                 else st)
      in replaceWith st1 templatePath (StringLiteral (toString (hash r))))"

fun get_tag :: "node option \<Rightarrow> node_path option" where
  "get_tag (Some (TaggedTemplateExpression tag quasis expressions)) = Some tag"
| "get_tag _ = None"

text \<open>The visitor of the last sweep.\<close>

definition TaggedTemplateExpression_visitor :: "host \<Rightarrow> node_path \<Rightarrow> state \<Rightarrow> outcome \<times> state" where
  "TaggedTemplateExpression_visitor h path2 st =
     (case getGraphQLTag (murmurhash h) (parse h) st path2 of
        Inl e \<Rightarrow> (Thrown e, st)
      | Inr None \<Rightarrow> (Normal, st)
      | Inr (Some r) \<Rightarrow>
         (case get_tag (nodes st path2) of
            None \<Rightarrow> (Thrown TypeError, st)
          | Some tag \<Rightarrow> (Normal, replaceQuery st path2 tag r)))"

section \<open>The injectors\<close>

text \<open>
  \<open>path.referencesImport(moduleSource, importName)\<close> of the host, for a path that is a
  referenced identifier; for any other path it is false.
\<close>

definition referencesImport :: "state \<Rightarrow> node_path \<Rightarrow> string \<Rightarrow> string \<Rightarrow> bool" where
  "referencesImport st p moduleSource importName =
     (if \<not> referenced st p then False
      else case node_name (nodes st p) of
             None \<Rightarrow> False
           | Some n \<Rightarrow>
              (case getBinding st (scope st p) n of
                 None \<Rightarrow> False
               | Some b \<Rightarrow>
                  (if kind b \<noteq> ''module'' then False
                   else case importSource (node_at st (parentPath st (path b))) of
                          None \<Rightarrow> False
                        | Some source \<Rightarrow>
                           (if source \<noteq> moduleSource then False
                            else if importName = [] then True
                            else case nodes st (path b) of
                                   Some (ImportDefaultSpecifier l) \<Rightarrow> importName = ''default''
                                 | Some (ImportNamespaceSpecifier l) \<Rightarrow> importName = ''*''
                                 | Some (ImportSpecifier l i) \<Rightarrow> i = Some importName
                                 | _ \<Rightarrow> False))))"

definition isUseStaticQuery :: "state \<Rightarrow> node_path \<Rightarrow> bool" where
  "isUseStaticQuery st p =
     (case nodes st p of
        Some (CallExpression callee arguments) \<Rightarrow>
          (case nodes st callee of
             Some (MemberExpression obj prop) \<Rightarrow>
               node_name (nodes st prop) = Some ''useStaticQuery'' \<and>
               referencesImport st obj ''gatsby'' []
           | _ \<Rightarrow>
               node_name (nodes st callee) = Some ''useStaticQuery'' \<and>
               referencesImport st callee ''gatsby'' [])
      | _ \<Rightarrow> False)"

definition unshiftContainer :: "state \<Rightarrow> node_path \<Rightarrow> node_path \<Rightarrow> state" where
  "unshiftContainer st program declaration =
     (case nodes st program of
        Some (Program body) \<Rightarrow> st\<lparr>nodes := (nodes st)(program \<mapsto> Program (declaration # body))\<rparr>
      | _ \<Rightarrow> st)"

text \<open>
  The default import of the result file: a specifier whose local name is the name of the
  identifier built by the visitor, in a new declaration put first in the program.
\<close>

definition addImport :: "host \<Rightarrow> node_path \<Rightarrow> string \<Rightarrow> name \<Rightarrow> state \<Rightarrow> state" where
  "addImport h program queryHash identifier st =
     (let importDefaultSpecifier = fresh st;
          importDeclaration = fresh st + 1;
          st1 = st\<lparr>nodes := (nodes st)
                  (importDefaultSpecifier \<mapsto> ImportDefaultSpecifier identifier,
                   importDeclaration \<mapsto>
                     ImportDeclaration [importDefaultSpecifier] (resultImportSource h queryHash)),
                 fresh := fresh st + 2\<rparr>
      in unshiftContainer st1 program importDeclaration)"

fun isJSXClosingElement :: "node option \<Rightarrow> bool" where
  "isJSXClosingElement (Some (JSXClosingElement n)) = True"
| "isJSXClosingElement _ = False"

text \<open>
  The handler of \<open>nestedJSXVistor\<close> for one path. \<open>path2.parent.attributes.push\<close>
  raises when the parent node has no \<open>attributes\<close>.
\<close>

definition nestedJSXVistor :: "host \<Rightarrow> node_path \<Rightarrow> string \<Rightarrow> node_path \<Rightarrow> state \<Rightarrow> outcome \<times> state" where
  "nestedJSXVistor h program queryHash path2 st =
     (if productionOrTest h \<and>
         nodes st path2 = Some (JSXIdentifier ''StaticQuery'') \<and>
         referencesImport st path2 ''gatsby'' [] \<and>
         \<not> isJSXClosingElement (node_at st (parentPath st path2))
      then
        (case parentPath st path2 of
           None \<Rightarrow> (Thrown TypeError, st)
         | Some parent \<Rightarrow>
            (case nodes st parent of
               Some (JSXOpeningElement n attributes) \<Rightarrow>
                 (let identifier = fresh st;
                      jSXIdentifier = fresh st + 1;
                      jSXExpressionContainer = fresh st + 2;
                      jSXAttribute = fresh st + 3;
                      st1 = st\<lparr>nodes := (nodes st)
                              (identifier \<mapsto> Identifier ''staticQueryData'',
                               jSXIdentifier \<mapsto> JSXIdentifier ''data'',
                               jSXExpressionContainer \<mapsto> JSXExpressionContainer identifier,
                               jSXAttribute \<mapsto> JSXAttribute jSXIdentifier (Some jSXExpressionContainer),
                               parent \<mapsto> JSXOpeningElement n (attributes @ [jSXAttribute])),
                             fresh := fresh st + 4\<rparr>
                  in (Normal, addImport h program queryHash ''staticQueryData'' st1))
             | _ \<Rightarrow> (Thrown TypeError, st)))
      else (Normal, st))"

text \<open>
  The handler of \<open>nestedHookVisitor\<close> for one path. When the callee is not a property
  access, the import of \<open>useStaticQuery\<close> is removed at once.
\<close>

definition removeHookImport :: "state \<Rightarrow> node_path \<Rightarrow> outcome \<times> state" where
  "removeHookImport st path2 =
     (case getBinding st (scope st path2) ''useStaticQuery'' of
        None \<Rightarrow> (Thrown TypeError, st)
      | Some b \<Rightarrow> removeImportSpecifier st (path b))"

definition nestedHookVisitor :: "host \<Rightarrow> node_path \<Rightarrow> string \<Rightarrow> node_path \<Rightarrow> state \<Rightarrow> outcome \<times> state" where
  "nestedHookVisitor h program queryHash path2 st =
     (if productionOrTest h \<and> isUseStaticQuery st path2
      then
        (case nodes st path2 of
           Some (CallExpression callee arguments) \<Rightarrow>
             (case (if isMemberExpression (nodes st callee) then (Normal, st)
                    else removeHookImport st path2) of
                (Thrown e, st1) \<Rightarrow> (Thrown e, st1)
              | (Normal, st1) \<Rightarrow>
                 (let identifier = fresh st1;
                      data = fresh st1 + 1;
                      st2 = replaceWith
                              (st1\<lparr>nodes := (nodes st1)
                                     (identifier \<mapsto> Identifier ''staticQueryData'',
                                      data \<mapsto> Identifier ''data''),
                                   fresh := fresh st1 + 2\<rparr>)
                              path2 (MemberExpression identifier data)
                  in (Normal, addImport h program queryHash ''staticQueryData'' st2)))
         | _ \<Rightarrow> (Normal, st))
      else (Normal, st))"

section \<open>Traversal\<close>

fun option_list :: "'a option \<Rightarrow> 'a list" where
  "option_list None = []"
| "option_list (Some x) = [x]"

text \<open>The child paths of a node, in the order the host visits them.\<close>

fun children :: "node \<Rightarrow> node_path list" where
  "children (Program body) = body"
| "children (ImportDeclaration specifiers source) = specifiers"
| "children (VariableDeclaration declarations) = declarations"
| "children (VariableDeclarator ident init) = ident # option_list init"
| "children (ObjectPattern properties) = properties"
| "children (ObjectProperty k v) = [k, v]"
| "children (RestElement a) = [a]"
| "children (CallExpression callee arguments) = callee # arguments"
| "children (MemberExpression obj prop) = [obj, prop]"
| "children (TaggedTemplateExpression tag quasis expressions) = tag # expressions"
| "children (JSXElement openingElement cs closingElement) =
     openingElement # cs @ option_list closingElement"
| "children (JSXOpeningElement n attributes) = n # attributes"
| "children (JSXClosingElement n) = [n]"
| "children (JSXAttribute n v) = n # option_list v"
| "children (JSXExpressionContainer e) = [e]"
| "children (Other t cs) = cs"
| "children nd = []"

definition children_of :: "state \<Rightarrow> node_path \<Rightarrow> node_path list" where
  "children_of st p = (case nodes st p of None \<Rightarrow> [] | Some nd \<Rightarrow> children nd)"

text \<open>
  The host's traversal of a queue of paths with one handler \<open>visit\<close>, called on entering
  each path. A removed path is skipped. The children of a path are visited after the
  handler, unless the handler replaced or removed its node. A fault ends the traversal.
  The queue is the list of children as it is when the parent is entered: the nodes the
  plugin adds meanwhile (an attribute \<open>data\<close>, a default import, the property access that
  replaces a call) are not in it. The host does visit them, but the handlers of the
  plugin do nothing there: the new attribute is not named \<open>query\<close>, its name is not
  \<open>StaticQuery\<close>, and none of the new nodes is a call, an element or a tagged template.
  For the same reason the model records no parent, scope or binding
  for a node the plugin builds: the plugin never asks for one. The tree is a store, so
  the depth of the descent is bounded by \<open>fuel\<close>; \<open>None\<close> is returned when the fuel runs
  out, or when a handler does not return.
\<close>

type_synonym visitor = "node_path \<Rightarrow> state \<Rightarrow> (outcome \<times> state) option"

fun traverse :: "nat \<Rightarrow> visitor \<Rightarrow> node_path list \<Rightarrow> state \<Rightarrow> (outcome \<times> state) option" where
  "traverse fuel visit [] st = Some (Normal, st)"
| "traverse 0 visit (p # ps) st = None"
| "traverse (Suc fuel) visit (p # ps) st =
     (case nodes st p of
        None \<Rightarrow> traverse (Suc fuel) visit ps st
      | Some nd \<Rightarrow>
         (case visit p st of
            None \<Rightarrow> None
          | Some (Thrown e, st1) \<Rightarrow> Some (Thrown e, st1)
          | Some (Normal, st1) \<Rightarrow>
             (case (if nodes st1 p = Some nd then traverse fuel visit (children nd) st1
                    else Some (Normal, st1)) of
                None \<Rightarrow> None
              | Some (Thrown e, st2) \<Rightarrow> Some (Thrown e, st2)
              | Some (Normal, st2) \<Rightarrow> traverse (Suc fuel) visit ps st2)))"

text \<open>\<open>path.traverse(visitor)\<close> visits what is below the path.\<close>

definition path_traverse :: "nat \<Rightarrow> visitor \<Rightarrow> node_path \<Rightarrow> state \<Rightarrow> (outcome \<times> state) option" where
  "path_traverse fuel visit p st = traverse fuel visit (children_of st p) st"

definition andThen ::
  "(outcome \<times> state) option \<Rightarrow> (state \<Rightarrow> (outcome \<times> state) option) \<Rightarrow> (outcome \<times> state) option" where
  "andThen r k =
     (case r of
        None \<Rightarrow> None
      | Some (Thrown e, st) \<Rightarrow> Some (Thrown e, st)
      | Some (Normal, st) \<Rightarrow> k st)"

section \<open>The rewrite engine\<close>

fun isProgramOrJSXOpeningElement :: "node option \<Rightarrow> bool" where
  "isProgramOrJSXOpeningElement (Some (Program body)) = True"
| "isProgramOrJSXOpeningElement (Some (JSXOpeningElement n attributes)) = True"
| "isProgramOrJSXOpeningElement _ = False"

fun isTaggedTemplateExpression :: "node option \<Rightarrow> bool" where
  "isTaggedTemplateExpression (Some (TaggedTemplateExpression tag quasis expressions)) = True"
| "isTaggedTemplateExpression _ = False"

text \<open>
  The second half of \<open>setImportForStaticQuery\<close>: from the template upwards to the first
  program or opening element, then both nested visitors below it. With no such ancestor
  \<open>parent\<close> ends as \<open>null\<close> and \<open>parent.traverse\<close> raises.
\<close>

definition injectStaticQuery ::
  "nat \<Rightarrow> host \<Rightarrow> node_path \<Rightarrow> string \<Rightarrow> node_path \<Rightarrow> state \<Rightarrow> (outcome \<times> state) option" where
  "injectStaticQuery fuel h program queryHash templatePath st =
     (case List.find (\<lambda>p. isProgramOrJSXOpeningElement (nodes st p))
             (templatePath # ancestors st templatePath) of
        None \<Rightarrow> Some (Thrown TypeError, st)
      | Some parent \<Rightarrow>
         andThen (path_traverse fuel (\<lambda>p s. Some (nestedJSXVistor h program queryHash p s)) parent st)
           (path_traverse fuel (\<lambda>p s. Some (nestedHookVisitor h program queryHash p s)) parent))"

definition setImportForStaticQuery ::
  "nat \<Rightarrow> host \<Rightarrow> node_path \<Rightarrow> node_path \<Rightarrow> state \<Rightarrow> (outcome \<times> state) option" where
  "setImportForStaticQuery fuel h program templatePath st =
     (case getGraphQLTag (murmurhash h) (parse h) st templatePath of
        Inl e \<Rightarrow> Some (Thrown e, st)
      | Inr None \<Rightarrow> Some (Normal, st)
      | Inr (Some r) \<Rightarrow>
         (case get_tag (nodes st templatePath) of
            None \<Rightarrow> Some (Thrown TypeError, st)
          | Some tag \<Rightarrow>
             injectStaticQuery fuel h program (toString (hash r)) templatePath
               (replaceQuery st templatePath tag r)))"

definition templateVisitor :: "nat \<Rightarrow> host \<Rightarrow> node_path \<Rightarrow> visitor" where
  "templateVisitor fuel h program p st =
     (if isTaggedTemplateExpression (nodes st p) then setImportForStaticQuery fuel h program p st
      else Some (Normal, st))"

text \<open>First sweep: the \<open>query\<close> attribute of every \<open>StaticQuery\<close> element.\<close>

definition variableDeclaratorVisitor :: "nat \<Rightarrow> host \<Rightarrow> node_path \<Rightarrow> name \<Rightarrow> visitor" where
  "variableDeclaratorVisitor fuel h program varName varPath st =
     (case nodes st varPath of
        Some (VariableDeclarator ident init) \<Rightarrow>
          (if node_name (nodes st ident) = Some varName
           then (case init of
                   None \<Rightarrow> Some (Thrown TypeError, st)
                 | Some i \<Rightarrow>
                    (if isTaggedTemplateExpression (nodes st i)
                     then path_traverse fuel (templateVisitor fuel h program) varPath st
                     else Some (Normal, st)))
           else Some (Normal, st))
      | _ \<Rightarrow> Some (Normal, st))"

definition queryAttributeVisitor :: "nat \<Rightarrow> host \<Rightarrow> node_path \<Rightarrow> visitor" where
  "queryAttributeVisitor fuel h program p st =
     (case nodes st p of
        Some (TaggedTemplateExpression tag quasis expressions) \<Rightarrow>
          setImportForStaticQuery fuel h program p st
      | Some (Identifier varName) \<Rightarrow>
          (if varName \<noteq> ''graphql''
           then path_traverse fuel (variableDeclaratorVisitor fuel h program varName) program st
           else Some (Normal, st))
      | _ \<Rightarrow> Some (Normal, st))"

definition jsxAttributeVisitor :: "nat \<Rightarrow> host \<Rightarrow> node_path \<Rightarrow> visitor" where
  "jsxAttributeVisitor fuel h program jsxPath st =
     (case nodes st jsxPath of
        Some (JSXAttribute n v) \<Rightarrow>
          (if node_name (nodes st n) \<noteq> Some ''query'' then Some (Normal, st)
           else path_traverse fuel (queryAttributeVisitor fuel h program) jsxPath st)
      | _ \<Rightarrow> Some (Normal, st))"

definition jsxElementVisitor :: "nat \<Rightarrow> host \<Rightarrow> node_path \<Rightarrow> visitor" where
  "jsxElementVisitor fuel h program jsxElementPath st =
     (case nodes st jsxElementPath of
        Some (JSXElement openingElement cs closingElement) \<Rightarrow>
          (case nodes st openingElement of
             Some (JSXOpeningElement n attributes) \<Rightarrow>
               (if node_name (nodes st n) \<noteq> Some ''StaticQuery'' then Some (Normal, st)
                else path_traverse fuel (jsxAttributeVisitor fuel h program) jsxElementPath st)
           | _ \<Rightarrow> Some (Thrown TypeError, st))
      | _ \<Rightarrow> Some (Normal, st))"

text \<open>Second sweep: the calls of \<open>useStaticQuery\<close>.\<close>

definition queryVariableTraverse :: "nat \<Rightarrow> host \<Rightarrow> node_path \<Rightarrow> node_path \<Rightarrow> state \<Rightarrow> (outcome \<times> state) option" where
  "queryVariableTraverse fuel h program hookPath st =
     (case nodes st hookPath of
        Some (CallExpression callee [argument]) \<Rightarrow>
          (case nodes st argument of
             Some (Identifier varName) \<Rightarrow>
               (case getBinding st (scope st hookPath) varName of
                  None \<Rightarrow> Some (Normal, st)
                | Some binding \<Rightarrow>
                   (case followVariableDeclarations st (Some binding) of
                      None \<Rightarrow> None
                    | Some (Inl e) \<Rightarrow> Some (Thrown e, st)
                    | Some (Inr b) \<Rightarrow>
                       path_traverse fuel (templateVisitor fuel h program) (path b) st))
           | _ \<Rightarrow> Some (Normal, st))
      | _ \<Rightarrow> Some (Normal, st))"

definition hookVisitor :: "nat \<Rightarrow> host \<Rightarrow> node_path \<Rightarrow> visitor" where
  "hookVisitor fuel h program hookPath st =
     (if \<not> isUseStaticQuery st hookPath then Some (Normal, st)
      else andThen (queryVariableTraverse fuel h program hookPath st)
             (path_traverse fuel (templateVisitor fuel h program) hookPath))"

text \<open>
  The drain of \<open>tagsToRemoveImportsFrom\<close>, and the visitor of the program: three sweeps
  and the drain.
\<close>

fun forEach_removeImport :: "node_path list \<Rightarrow> state \<Rightarrow> outcome \<times> state" where
  "forEach_removeImport [] st = (Normal, st)"
| "forEach_removeImport (tag # tags) st =
     (case removeImport st tag of
        (Thrown e, st1) \<Rightarrow> (Thrown e, st1)
      | (Normal, st1) \<Rightarrow> forEach_removeImport tags st1)"

definition sweeps :: "nat \<Rightarrow> host \<Rightarrow> node_path \<Rightarrow> state \<Rightarrow> (outcome \<times> state) option" where
  "sweeps fuel h program st =
     andThen (path_traverse fuel (jsxElementVisitor fuel h program) program st)
       (\<lambda>st1. andThen (path_traverse fuel (hookVisitor fuel h program) program st1)
          (path_traverse fuel (\<lambda>p s. Some (if isTaggedTemplateExpression (nodes s p)
                                            then TaggedTemplateExpression_visitor h p s
                                            else (Normal, s))) program))"

definition Program_visitor :: "nat \<Rightarrow> host \<Rightarrow> node_path \<Rightarrow> state \<Rightarrow> (outcome \<times> state) option" where
  "Program_visitor fuel h program st =
     andThen (sweeps fuel h program st)
       (\<lambda>st1. Some (forEach_removeImport (tagsToRemoveImportsFrom st1) st1))"


section \<open>Invariants of the sweeps\<close>






definition notImport :: "node option \<Rightarrow> bool" where
  "notImport n = (\<not> isImportSpecifier n \<and> importSource n = None)"


definition frame :: "state \<Rightarrow> state \<Rightarrow> bool" where
  "frame s s' =
     (bindings s' = bindings s \<and> ancestors s' = ancestors s \<and> fresh s \<le> fresh s' \<and>
      (\<forall>x < fresh s. nodes s' x = nodes s x \<or>
          (nodes s x \<noteq> None \<and> nodes s' x \<noteq> None \<and> notImport (nodes s x) \<and> notImport (nodes s' x))))"


section \<open>What the injectors and the substitution change\<close>

text \<open>
  Predicates used to follow one template through the visitor of the program.
  \<open>changed s a b\<close> lists the ways in which an injector replaces the node \<open>a\<close> of a path
  of the file by \<open>b\<close>: an opening element gets more attributes, a program gets more
  statements in front, and a call whose callee is not the identifier \<open>require\<close> becomes a
  property access. \<open>edited s s'\<close> relates a state to one that differs from it only by such
  changes and by new nodes at new paths.
\<close>

fun isVariableDeclarator :: "node option \<Rightarrow> bool" where
  "isVariableDeclarator (Some (VariableDeclarator ident init)) = True"
| "isVariableDeclarator _ = False"

definition changed :: "state \<Rightarrow> node option \<Rightarrow> node option \<Rightarrow> bool" where
  "changed s a b =
     (case a of
        Some (JSXOpeningElement n attributes) \<Rightarrow> (\<exists>e. b = Some (JSXOpeningElement n (attributes @ e)))
      | Some (Program body) \<Rightarrow> (\<exists>e. b = Some (Program (e @ body)))
      | Some (CallExpression callee arguments) \<Rightarrow>
          nodes s callee \<noteq> Some (Identifier ''require'') \<and> isMemberExpression b
      | _ \<Rightarrow> False)"

definition edited :: "state \<Rightarrow> state \<Rightarrow> bool" where
  "edited s s' =
     (ancestors s' = ancestors s \<and> scope s' = scope s \<and> parentScopes s' = parentScopes s \<and>
      bindings s' = bindings s \<and> globals s' = globals s \<and> referenced s' = referenced s \<and>
      bindingIdentifiers s' = bindingIdentifiers s \<and>
      tagsToRemoveImportsFrom s' = tagsToRemoveImportsFrom s \<and> fresh s \<le> fresh s' \<and>
      (\<forall>x < fresh s. nodes s' x = nodes s x \<or> changed s (nodes s x) (nodes s' x)))"

text \<open>
  \<open>descends s (a # ... # z) p\<close> says that the path \<open>p\<close> lies below \<open>a\<close>: each path of the
  chain is a child of the one before it, \<open>p\<close> is a child of \<open>z\<close>, and every node of the chain
  is \<open>passable\<close>: present, and neither a tagged template, nor a call, nor an import
  declaration or specifier. A traversal that enters \<open>a\<close> goes down such a chain whatever
  the sweeps have done before: they replace tagged templates and calls, and remove
  imports, and then the host does not visit what was below. \<open>rooted s s'\<close> says that
  every passable path of \<open>s\<close> is passable in \<open>s'\<close> and still has its children that are no
  imports.
\<close>

fun passable :: "node option \<Rightarrow> bool" where
  "passable None = False"
| "passable (Some (TaggedTemplateExpression tag quasis expressions)) = False"
| "passable (Some (CallExpression callee arguments)) = False"
| "passable (Some (ImportDeclaration specifiers source)) = False"
| "passable (Some (ImportSpecifier l i)) = False"
| "passable (Some nd) = True"


definition rooted :: "state \<Rightarrow> state \<Rightarrow> bool" where
  "rooted s s' =
     (fresh s \<le> fresh s' \<and>
      (\<forall>a < fresh s. passable (nodes s a) \<longrightarrow>
         passable (nodes s' a) \<and>
         (\<forall>b \<in> set (children_of s a). notImport (nodes s b) \<longrightarrow> b \<in> set (children_of s' a))))"



section \<open>Example programs\<close>

text \<open>
  A file whose bindings all belong to the program scope: its paths with their nodes and
  ancestors, the bindings and free names of the program scope, the referenced
  identifiers, and the names each declaring path declares.
\<close>

definition module ::
  "(node_path \<times> node \<times> node_path list) list \<Rightarrow> (name \<times> binding) list \<Rightarrow> name list
     \<Rightarrow> node_path list \<Rightarrow> (node_path \<times> name list) list \<Rightarrow> state" where
  "module ns bs gs rs ds =
     \<lparr>nodes = map_of (map (\<lambda>(p, nd, as). (p, nd)) ns),
      ancestors = (\<lambda>p. case map_of (map (\<lambda>(p, nd, as). (p, as)) ns) p of None \<Rightarrow> [] | Some as \<Rightarrow> as),
      scope = (\<lambda>p. 0),
      parentScopes = (\<lambda>s. []),
      bindings = (\<lambda>s. if s = 0 then map_of bs else Map.empty),
      globals = (\<lambda>s n. s = 0 \<and> n \<in> set gs),
      referenced = (\<lambda>p. p \<in> set rs),
      bindingIdentifiers = (\<lambda>p. case map_of ds p of None \<Rightarrow> [] | Some ns \<Rightarrow> ns),
      tagsToRemoveImportsFrom = [],
      fresh = length ns\<rparr>"

text \<open>
  \<^verbatim>\<open>import { graphql } from 'gatsby'; graphql.foo`{ a }`\<close>
\<close>

definition named_import_member :: state where
  "named_import_member =
     module
       [(0, Program [1, 3], []),
        (1, ImportDeclaration [2] ''gatsby'', [0]),
        (2, ImportSpecifier ''graphql'' (Some ''graphql''), [1, 0]),
        (3, Other ''ExpressionStatement'' [4], [0]),
        (4, TaggedTemplateExpression 5 [TemplateElement ''{ a }'' None] [], [3, 0]),
        (5, MemberExpression 6 7, [4, 3, 0]),
        (6, Identifier ''graphql'', [5, 4, 3, 0]),
        (7, Identifier ''foo'', [5, 4, 3, 0])]
       [(''graphql'', \<lparr>kind = ''module'', path = 2\<rparr>)]
       []
       [6]
       [(1, [''graphql'']), (2, [''graphql''])]"

text \<open>
  \<^verbatim>\<open>graphql`{ a }`\<close> and \<^verbatim>\<open>graphql``\<close>, with no import of \<open>graphql\<close>: the name is free.
\<close>

definition free_tag :: "string \<Rightarrow> state" where
  "free_tag txt =
     module
       [(0, Program [1], []),
        (1, Other ''ExpressionStatement'' [2], [0]),
        (2, TaggedTemplateExpression 3
              [TemplateElement txt (Some (SourceLocation (Position 1 8) (Position 1 (8 + length txt))))] [],
            [1, 0]),
        (3, Identifier ''graphql'', [2, 1, 0])]
       []
       [''graphql'']
       [3]
       []"

text \<open>
  \<^verbatim>\<open>import { graphql } from 'gatsby'; export const query = graphql`{ a }`\<close>
\<close>

definition page_query :: state where
  "page_query =
     module
       [(0, Program [1, 3], []),
        (1, ImportDeclaration [2] ''gatsby'', [0]),
        (2, ImportSpecifier ''graphql'' (Some ''graphql''), [1, 0]),
        (3, Other ''ExportNamedDeclaration'' [4], [0]),
        (4, VariableDeclaration [5], [3, 0]),
        (5, VariableDeclarator 6 (Some 7), [4, 3, 0]),
        (6, Identifier ''query'', [5, 4, 3, 0]),
        (7, TaggedTemplateExpression 8 [TemplateElement ''{ a }'' None] [], [5, 4, 3, 0]),
        (8, Identifier ''graphql'', [7, 5, 4, 3, 0])]
       [(''graphql'', \<lparr>kind = ''module'', path = 2\<rparr>),
        (''query'', \<lparr>kind = ''const'', path = 5\<rparr>)]
       []
       [8]
       [(1, [''graphql'']), (2, [''graphql'']), (4, [''query'']), (5, [''query''])]"

text \<open>A host in production mode; its parser returns one definition for a text that is not
  empty and none for the empty text.\<close>

definition production :: host where
  "production =
     \<lparr>murmurhash = (\<lambda>txt seed. length txt + seed),
      parse = (\<lambda>txt. Inr (Document (filter (\<lambda>l. l \<noteq> []) [txt]))),
      NODE_ENV = Some ''production'',
      filename = None,
      cwd = ''/site'',
      nodePath_join = (\<lambda>a b. a @ ''/'' @ b),
      nodePath_relative = (\<lambda>a b. b),
      nodePath_dir = (\<lambda>a. a)\<rparr>"

text \<open>
  \<^verbatim>\<open>graphql`{ a ${b} }`\<close>, with no import of \<open>graphql\<close>; the two segments have the
  locations given.
\<close>

definition interpolated :: "source_location option \<Rightarrow> source_location option \<Rightarrow> state" where
  "interpolated l0 l1 =
     module
       [(0, Program [1], []),
        (1, Other ''ExpressionStatement'' [2], [0]),
        (2, TaggedTemplateExpression 3 [TemplateElement ''{ a '' l0, TemplateElement '' }'' l1] [4], [1, 0]),
        (3, Identifier ''graphql'', [2, 1, 0]),
        (4, Identifier ''b'', [2, 1, 0])]
       []
       [''graphql'', ''b'']
       [3, 4]
       []"


text \<open>
  \<^verbatim>\<open>var x = y; var y = x\<close>
\<close>

definition alias_cycle :: state where
  "alias_cycle =
     module
       [(0, Program [1, 5], []),
        (1, VariableDeclaration [2], [0]),
        (2, VariableDeclarator 3 (Some 4), [1, 0]),
        (3, Identifier ''x'', [2, 1, 0]),
        (4, Identifier ''y'', [2, 1, 0]),
        (5, VariableDeclaration [6], [0]),
        (6, VariableDeclarator 7 (Some 8), [5, 0]),
        (7, Identifier ''y'', [6, 5, 0]),
        (8, Identifier ''x'', [6, 5, 0])]
       [(''x'', \<lparr>kind = ''var'', path = 2\<rparr>), (''y'', \<lparr>kind = ''var'', path = 6\<rparr>)]
       []
       [4, 8]
       [(1, [''x'']), (2, [''x'']), (5, [''y'']), (6, [''y''])]"


text \<open>
  \<^verbatim>\<open>import { graphql, Link } from 'gatsby'; export const query = graphql`{ a }`\<close>
\<close>

definition two_specifiers :: state where
  "two_specifiers =
     module
       [(0, Program [1, 4], []),
        (1, ImportDeclaration [2, 3] ''gatsby'', [0]),
        (2, ImportSpecifier ''graphql'' (Some ''graphql''), [1, 0]),
        (3, ImportSpecifier ''Link'' (Some ''Link''), [1, 0]),
        (4, Other ''ExportNamedDeclaration'' [5], [0]),
        (5, VariableDeclaration [6], [4, 0]),
        (6, VariableDeclarator 7 (Some 8), [5, 4, 0]),
        (7, Identifier ''query'', [6, 5, 4, 0]),
        (8, TaggedTemplateExpression 9 [TemplateElement ''{ a }'' None] [], [6, 5, 4, 0]),
        (9, Identifier ''graphql'', [8, 6, 5, 4, 0])]
       [(''graphql'', \<lparr>kind = ''module'', path = 2\<rparr>),
        (''Link'', \<lparr>kind = ''module'', path = 3\<rparr>),
        (''query'', \<lparr>kind = ''const'', path = 6\<rparr>)]
       []
       [9]
       [(1, [''graphql'', ''Link'']), (2, [''graphql'']), (3, [''Link'']),
        (5, [''query'']), (6, [''query''])]"

text \<open>
  \<^verbatim>\<open>const { graphql } = require('gatsby'); graphql`{ a }`\<close>
\<close>

definition require_one :: state where
  "require_one =
     module
       [(0, Program [1, 10], []),
        (1, VariableDeclaration [2], [0]),
        (2, VariableDeclarator 3 (Some 7), [1, 0]),
        (3, ObjectPattern [4], [2, 1, 0]),
        (4, ObjectProperty 5 6, [3, 2, 1, 0]),
        (5, Identifier ''graphql'', [4, 3, 2, 1, 0]),
        (6, Identifier ''graphql'', [4, 3, 2, 1, 0]),
        (7, CallExpression 8 [9], [2, 1, 0]),
        (8, Identifier ''require'', [7, 2, 1, 0]),
        (9, StringLiteral ''gatsby'', [7, 2, 1, 0]),
        (10, Other ''ExpressionStatement'' [11], [0]),
        (11, TaggedTemplateExpression 12 [TemplateElement ''{ a }'' None] [], [10, 0]),
        (12, Identifier ''graphql'', [11, 10, 0])]
       [(''graphql'', \<lparr>kind = ''const'', path = 2\<rparr>)]
       [''require'']
       [8, 12]
       [(1, [''graphql'']), (2, [''graphql'']), (4, [''graphql''])]"

text \<open>
  \<^verbatim>\<open>import { StaticQuery, graphql } from 'gatsby'\<close>, then
  \<^verbatim>\<open><StaticQuery query={graphql`{ a }`} />\<close> and \<^verbatim>\<open><StaticQuery query={graphql`{ bb }`} />\<close>
\<close>

definition two_static_queries :: state where
  "two_static_queries =
     module
       [(0, Program [1, 4, 13], []),
        (1, ImportDeclaration [2, 3] ''gatsby'', [0]),
        (2, ImportSpecifier ''StaticQuery'' (Some ''StaticQuery''), [1, 0]),
        (3, ImportSpecifier ''graphql'' (Some ''graphql''), [1, 0]),
        (4, Other ''ExpressionStatement'' [5], [0]),
        (5, JSXElement 6 [] None, [4, 0]),
        (6, JSXOpeningElement 7 [8], [5, 4, 0]),
        (7, JSXIdentifier ''StaticQuery'', [6, 5, 4, 0]),
        (8, JSXAttribute 9 (Some 10), [6, 5, 4, 0]),
        (9, JSXIdentifier ''query'', [8, 6, 5, 4, 0]),
        (10, JSXExpressionContainer 11, [8, 6, 5, 4, 0]),
        (11, TaggedTemplateExpression 12 [TemplateElement ''{ a }'' None] [], [10, 8, 6, 5, 4, 0]),
        (12, Identifier ''graphql'', [11, 10, 8, 6, 5, 4, 0]),
        (13, Other ''ExpressionStatement'' [14], [0]),
        (14, JSXElement 15 [] None, [13, 0]),
        (15, JSXOpeningElement 16 [17], [14, 13, 0]),
        (16, JSXIdentifier ''StaticQuery'', [15, 14, 13, 0]),
        (17, JSXAttribute 18 (Some 19), [15, 14, 13, 0]),
        (18, JSXIdentifier ''query'', [17, 15, 14, 13, 0]),
        (19, JSXExpressionContainer 20, [17, 15, 14, 13, 0]),
        (20, TaggedTemplateExpression 21 [TemplateElement ''{ bb }'' None] [], [19, 17, 15, 14, 13, 0]),
        (21, Identifier ''graphql'', [20, 19, 17, 15, 14, 13, 0])]
       [(''StaticQuery'', \<lparr>kind = ''module'', path = 2\<rparr>),
        (''graphql'', \<lparr>kind = ''module'', path = 3\<rparr>)]
       []
       [7, 12, 16, 21]
       [(1, [''StaticQuery'', ''graphql'']), (2, [''StaticQuery'']), (3, [''graphql''])]"



section \<open>Tag classification: property access on a named import\<close>

lemma module_simps [simp]:
  "nodes (module ns bs gs rs ds) = map_of (map (\<lambda>(p, nd, as). (p, nd)) ns)"
  "ancestors (module ns bs gs rs ds) p =
     (case map_of (map (\<lambda>(p, nd, as). (p, as)) ns) p of None \<Rightarrow> [] | Some as \<Rightarrow> as)"
  "scope (module ns bs gs rs ds) p = 0"
  "parentScopes (module ns bs gs rs ds) s = []"
  "bindings (module ns bs gs rs ds) s = (if s = 0 then map_of bs else Map.empty)"
  "globals (module ns bs gs rs ds) s n = (s = 0 \<and> n \<in> set gs)"
  "referenced (module ns bs gs rs ds) p = (p \<in> set rs)"
  "bindingIdentifiers (module ns bs gs rs ds) p = (case map_of ds p of None \<Rightarrow> [] | Some ns \<Rightarrow> ns)"
  "tagsToRemoveImportsFrom (module ns bs gs rs ds) = []"
  "fresh (module ns bs gs rs ds) = length ns"
  by (simp_all add: module_def)

lemma getBinding_module [simp]: "getBinding (module ns bs gs rs ds) 0 n = map_of bs n"
  by (simp add: getBinding_def owner_def split: option.splits)

lemma hasGlobal_module [simp]: "hasGlobal (module ns bs gs rs ds) 0 n = (n \<in> set gs)"
  by (simp add: hasGlobal_def)

text \<open>
  C2 (amended). For a tag that is a property access whose base identifier resolves to a
  named-import specifier, \<open>isGraphqlTag\<close> returns true exactly when the binding is a
  module binding, its declaration imports from \<open>gatsby\<close> and the imported name is
  \<open>graphql\<close>; the accessed property plays no part. It returns false in every other case.
\<close>

theorem isGraphqlTag_member_of_named_import:
  assumes "nodes f tag = Some (MemberExpression obj prop)"
      and "nodes f obj = Some (Identifier b)"
      and "getBinding f (scope f obj) b = Some bd"
      and "nodes f (path bd) = Some (ImportSpecifier l i)"
  shows "isGraphqlTag f tag =
           Inr (kind bd = ''module'' \<and>
                importSource (node_at f (parentPath f (path bd))) = Some ''gatsby'' \<and>
                i = Some ''graphql'')"
  using assms by (auto simp: isGraphqlTag_def getTagImport_def isGlobalIdentifier_def)

theorem isGraphqlTag_member_of_named_import_witness:
  "nodes named_import_member 5 = Some (MemberExpression 6 7) \<and>
   nodes named_import_member 6 = Some (Identifier ''graphql'') \<and>
   getBinding named_import_member (scope named_import_member 6) ''graphql''
     = Some \<lparr>kind = ''module'', path = 2\<rparr> \<and>
   nodes named_import_member 2 = Some (ImportSpecifier ''graphql'' (Some ''graphql'')) \<and>
   isGraphqlTag named_import_member 5 = Inr True"
  using isGraphqlTag_member_of_named_import
          [of named_import_member 5 6 7 "''graphql''" "\<lparr>kind = ''module'', path = 2\<rparr>"
              "''graphql''" "Some ''graphql''"]
  by (simp add: named_import_member_def parentPath_def node_at_def)

text \<open>
  C2 as stated fails: in \<^verbatim>\<open>import { graphql } from 'gatsby'\<close> followed by
  \<^verbatim>\<open>graphql.foo`{ a }`\<close> the tag is a property access, its base resolves to a named-import
  specifier, and the classifier returns true.
\<close>

theorem member_of_named_import_counterexample:
  "isMemberExpression (nodes named_import_member 5) \<and>
   get_object (nodes named_import_member 5) = Some 6 \<and>
   map_option path (getBinding named_import_member (scope named_import_member 6) ''graphql'') = Some 2 \<and>
   isImportSpecifier (nodes named_import_member 2) \<and>
   isGraphqlTag named_import_member 5 \<noteq> Inr False"
  by (simp add: named_import_member_def isGraphqlTag_def getTagImport_def parentPath_def node_at_def)

section \<open>Extraction and validation\<close>

lemma getGraphQLTag_query:
  assumes "nodes st p = Some (TaggedTemplateExpression tag quasis expressions)"
      and "isGlobalIdentifier st tag \<or> isGraphqlTag st tag = Inr True"
  shows "getGraphQLTag mh prs st p =
           (case quasis of
              [] \<Rightarrow> Inl TypeError
            | [q] \<Rightarrow>
               (case tryParse prs (raw q) (loc q) of
                  Inl err \<Rightarrow> Inl (GraphQLSyntaxError (raw q) err (loc q))
                | Inr d \<Rightarrow> Inr (Some \<lparr>ast = d, text' = raw q, hash = mh (raw q) 0,
                                       isGlobal = isGlobalIdentifier st tag\<rparr>))
            | q0 # q1 # qs \<Rightarrow>
               Inl (newStringInterpolationNotAllowedError
                      (map_option loc_end (loc q0)) (map_option loc_start (loc q1))))"
proof (cases "isGlobalIdentifier st tag")
  case True
  with assms(1) show ?thesis by (simp add: getGraphQLTag_def Let_def split: list.splits sum.splits)
next
  case False
  with assms have "isGraphqlTag st tag = Inr True" by simp
  with assms(1) False show ?thesis by (simp add: getGraphQLTag_def Let_def split: list.splits sum.splits)
qed


lemma getGraphQLTag_hash:
  assumes "getGraphQLTag mh prs st p = Inr (Some r)"
  shows "hash r = mh (text' r) 0"
proof -
  from assms obtain tag quasis expressions
    where n: "nodes st p = Some (TaggedTemplateExpression tag quasis expressions)"
    by (auto simp: getGraphQLTag_def split: option.splits node.splits)
  have c: "isGlobalIdentifier st tag \<or> isGraphqlTag st tag = Inr True"
    using assms n by (auto simp: getGraphQLTag_def Let_def split: sum.splits bool.splits if_splits)
  show ?thesis
    using assms unfolding getGraphQLTag_query [OF n c]
    by (auto split: list.splits sum.splits)
qed

lemma requiresGatsby_error: "requiresGatsby f n = Inl e \<Longrightarrow> e = TypeError"
  by (induction f n rule: requiresGatsby.induct) (auto split: if_splits list.splits)

lemma findProperty_error: "findProperty f name ps = Inl e \<Longrightarrow> e = TypeError"
proof (induction ps)
  case Nil
  then show ?case by simp
next
  case (Cons p ps)
  show ?case
  proof (cases "nodes f p")
    case None
    with Cons.prems show ?thesis by simp
  next
    case (Some nd)
    with Cons show ?thesis by (cases nd) (auto split: if_splits)
  qed
qed

lemma getTagImport_error:
  assumes "getTagImport f tag = Inl e"
  shows "e = TypeError"
proof (cases "node_name (nodes f tag)")
  case None
  with assms show ?thesis by (simp add: getTagImport_def)
next
  case (Some name)
  note nm = Some
  show ?thesis
  proof (cases "getBinding f (scope f tag) name")
    case None
    with nm assms show ?thesis by (simp add: getTagImport_def)
  next
    case (Some binding)
    note bd = Some
    show ?thesis
    proof (cases "kind binding = ''module'' \<and>
                  importSource (node_at f (parentPath f (path binding))) = Some ''gatsby''")
      case True
      with nm bd assms show ?thesis by (simp add: getTagImport_def)
    next
      case False
      note nf = False
      show ?thesis
      proof (cases "nodes f (path binding)")
        case None
        with nm bd nf assms show ?thesis by (auto simp: getTagImport_def)
      next
        case (Some nd)
        show ?thesis
        proof (cases nd)
          case (VariableDeclarator ident init)
          with nm bd nf Some assms
          have r: "(case requiresGatsby f (node_at f init) of
                      Inl e \<Rightarrow> Inl e
                    | Inr False \<Rightarrow> Inr None
                    | Inr True \<Rightarrow>
                       (case nodes f ident of
                          Some (ObjectPattern properties) \<Rightarrow> findProperty f name properties
                        | _ \<Rightarrow> Inr (Some ident))) = Inl e"
            by (auto simp: getTagImport_def)
          show ?thesis
          proof (cases "requiresGatsby f (node_at f init)")
            case (Inl e')
            with r requiresGatsby_error [OF Inl] show ?thesis by simp
          next
            case (Inr b)
            show ?thesis
            proof (cases b)
              case False
              with Inr r show ?thesis by simp
            next
              case True
              show ?thesis
              proof (cases "nodes f ident")
                case None
                with Inr True r show ?thesis by simp
              next
                case (Some pat)
                with Inr True r findProperty_error show ?thesis by (cases pat) auto
              qed
            qed
          qed
        qed (use nm bd nf Some assms in \<open>auto simp: getTagImport_def\<close>)
      qed
    qed
  qed
qed

lemma isGraphqlTag_error: "isGraphqlTag f tag = Inl e \<Longrightarrow> e = TypeError"
  by (auto simp: isGraphqlTag_def Let_def split: sum.splits option.splits if_splits
           dest: getTagImport_error)

text \<open>
  Whatever the parser does, \<open>EmptyGraphQLTagError\<close> is never the fault that
  \<open>getGraphQLTag\<close> raises.
\<close>

lemma getGraphQLTag_never_empty_fault:
  "getGraphQLTag mh prs st p \<noteq> Inl (EmptyGraphQLTagError l)"
proof (cases "nodes st p")
  case None
  then show ?thesis by (simp add: getGraphQLTag_def)
next
  case (Some nd)
  show ?thesis
  proof (cases nd)
    case (TaggedTemplateExpression tag quasis expressions)
    show ?thesis
    proof (cases "isGlobalIdentifier st tag \<or> isGraphqlTag st tag = Inr True")
      case True
      from Some TaggedTemplateExpression
      have n: "nodes st p = Some (TaggedTemplateExpression tag quasis expressions)" by simp
      show ?thesis
        unfolding getGraphQLTag_query [OF n True]
        by (auto simp: newStringInterpolationNotAllowedError_def
                 split: list.splits sum.splits option.splits)
    next
      case False
      then have g: "\<not> isGlobalIdentifier st tag" and c: "isGraphqlTag st tag \<noteq> Inr True" by simp_all
      show ?thesis
      proof (cases "isGraphqlTag st tag")
        case (Inl e)
        with Some TaggedTemplateExpression g isGraphqlTag_error [OF Inl] show ?thesis
          by (simp add: getGraphQLTag_def)
      next
        case (Inr b)
        with c have "b = False" by simp
        with Some TaggedTemplateExpression g Inr show ?thesis
          by (simp add: getGraphQLTag_def)
      qed
    qed
  qed (use Some in \<open>simp_all add: getGraphQLTag_def\<close>)
qed

text \<open>
  C1. A template classified as a query whose single segment parses to a document with no
  definition should make \<open>getGraphQLTag\<close> raise \<open>EmptyGraphQLTagError\<close>. The code raises
  it inside its own \<open>try\<close> block, so it is caught and what reaches the caller is
  \<open>GraphQLSyntaxError\<close> with the empty-tag fault as its \<open>originalError\<close>: here for
  \<^verbatim>\<open>graphql``\<close> and a parser that returns a document without definitions for the empty
  text. The tree is as it was. (A parser that rejects the empty text instead has its
  own fault wrapped in the same way.)
\<close>

theorem empty_query_raises_syntax_error:
  "parse production [] = Inr (Document []) \<and>
   getGraphQLTag (murmurhash production) (parse production) (free_tag []) 2
     = Inl (GraphQLSyntaxError []
             (EmptyGraphQLTagError (Some (SourceLocation (Position 1 8) (Position 1 8))))
             (Some (SourceLocation (Position 1 8) (Position 1 8)))) \<and>
   fst (TaggedTemplateExpression_visitor production 2 (free_tag []))
     \<noteq> Thrown (EmptyGraphQLTagError (Some (SourceLocation (Position 1 8) (Position 1 8)))) \<and>
   snd (TaggedTemplateExpression_visitor production 2 (free_tag [])) = free_tag []"
  by (simp add: free_tag_def production_def getGraphQLTag_def isGlobalIdentifier_def tryParse_def
        TaggedTemplateExpression_visitor_def)

text \<open>
  C5. A template classified as a query that has more than one segment should make
  \<open>getGraphQLTag\<close> raise \<open>StringInterpolationNotAllowedError\<close>, the tree being left as it
  was. On a template whose segments carry no location, \<^verbatim>\<open>graphql`{ a ${b} }`\<close> here, the
  constructor of the fault does not complete: what is raised is the \<open>SyntaxError\<close> of
  \<open>JSON.parse\<close>. The tree is as it was.
\<close>

theorem interpolation_without_location:
  "nodes (interpolated None None) 2
     = Some (TaggedTemplateExpression 3
              [TemplateElement ''{ a '' None, TemplateElement '' }'' None] [4]) \<and>
   isGlobalIdentifier (interpolated None None) 3 \<and>
   getGraphQLTag (murmurhash production) (parse production) (interpolated None None) 2
     = Inl SyntaxError \<and>
   TaggedTemplateExpression_visitor production 2 (interpolated None None)
     = (Thrown SyntaxError, interpolated None None)"
  by (simp add: interpolated_def getGraphQLTag_def isGlobalIdentifier_def
        newStringInterpolationNotAllowedError_def TaggedTemplateExpression_visitor_def)

text \<open>
  Where the first two segments carry a source location the code does what C5 says: for
  a template classified as a query that has more than one segment, \<open>getGraphQLTag\<close> raises
  \<open>StringInterpolationNotAllowedError\<close> with the end of the first segment and the start of
  the second, and both callers (\<open>setImportForStaticQuery\<close> and the visitor of the last
  sweep) let the fault through with the state, tree included, as it was.
\<close>

theorem interpolation_rejected:
  assumes "nodes st p = Some (TaggedTemplateExpression tag (q0 # q1 # qs) expressions)"
      and "isGlobalIdentifier st tag \<or> isGraphqlTag st tag = Inr True"
      and "loc q0 = Some l0" and "loc q1 = Some l1"
  shows "getGraphQLTag (murmurhash h) (parse h) st p
           = Inl (StringInterpolationNotAllowedError (loc_end l0) (loc_start l1)) \<and>
         TaggedTemplateExpression_visitor h p st
           = (Thrown (StringInterpolationNotAllowedError (loc_end l0) (loc_start l1)), st) \<and>
         setImportForStaticQuery fuel h program p st
           = Some (Thrown (StringInterpolationNotAllowedError (loc_end l0) (loc_start l1)), st)"
  using assms(3,4)
  by (simp add: getGraphQLTag_query [OF assms(1,2)] TaggedTemplateExpression_visitor_def
        setImportForStaticQuery_def newStringInterpolationNotAllowedError_def)

theorem interpolation_rejected_witness:
  "nodes (interpolated (Some (SourceLocation (Position 1 8) (Position 1 12)))
                       (Some (SourceLocation (Position 1 16) (Position 1 18)))) 2
     = Some (TaggedTemplateExpression 3
              [TemplateElement ''{ a '' (Some (SourceLocation (Position 1 8) (Position 1 12))),
               TemplateElement '' }'' (Some (SourceLocation (Position 1 16) (Position 1 18)))] [4]) \<and>
   isGlobalIdentifier (interpolated (Some (SourceLocation (Position 1 8) (Position 1 12)))
                       (Some (SourceLocation (Position 1 16) (Position 1 18)))) 3 \<and>
   TaggedTemplateExpression_visitor production 2
       (interpolated (Some (SourceLocation (Position 1 8) (Position 1 12)))
                     (Some (SourceLocation (Position 1 16) (Position 1 18))))
     = (Thrown (StringInterpolationNotAllowedError (Position 1 12) (Position 1 16)),
        interpolated (Some (SourceLocation (Position 1 8) (Position 1 12)))
                     (Some (SourceLocation (Position 1 16) (Position 1 18))))"
  using interpolation_rejected
          [of "interpolated (Some (SourceLocation (Position 1 8) (Position 1 12)))
                            (Some (SourceLocation (Position 1 16) (Position 1 18)))"
              2 3 "TemplateElement ''{ a '' (Some (SourceLocation (Position 1 8) (Position 1 12)))"
              "TemplateElement '' }'' (Some (SourceLocation (Position 1 16) (Position 1 18)))"
              "[]" "[4]" "SourceLocation (Position 1 8) (Position 1 12)"
              "SourceLocation (Position 1 16) (Position 1 18)" production]
  by (simp add: interpolated_def isGlobalIdentifier_def)

text \<open>
  C9. The hash of every record \<open>getGraphQLTag\<close> returns is \<open>murmurhash\<close> of the text of
  the record with seed 0: two records with the same text have the same hash, whatever
  the file, the position of the template, the scope, the parser and the kind of tag.
\<close>

theorem hash_of_text_only:
  assumes "getGraphQLTag mh parse1 st1 p1 = Inr (Some r1)"
      and "getGraphQLTag mh parse2 st2 p2 = Inr (Some r2)"
      and "text' r1 = text' r2"
  shows "hash r1 = mh (text' r1) 0 \<and> hash r2 = hash r1"
  using assms getGraphQLTag_hash [OF assms(1)] getGraphQLTag_hash [OF assms(2)] by simp

theorem hash_of_text_only_witness:
  "getGraphQLTag (murmurhash production) (parse production) (free_tag ''{ a }'') 2
     = Inr (Some \<lparr>ast = Document [''{ a }''], text' = ''{ a }'', hash = 5, isGlobal = True\<rparr>) \<and>
   getGraphQLTag (murmurhash production) (parse production) page_query 7
     = Inr (Some \<lparr>ast = Document [''{ a }''], text' = ''{ a }'', hash = 5, isGlobal = False\<rparr>) \<and>
   hash \<lparr>ast = Document [''{ a }''], text' = ''{ a }'', hash = 5, isGlobal = False\<rparr>
     = hash \<lparr>ast = Document [''{ a }''], text' = ''{ a }'', hash = 5, isGlobal = True\<rparr>"
proof -
  have 1: "getGraphQLTag (murmurhash production) (parse production) (free_tag ''{ a }'') 2
     = Inr (Some \<lparr>ast = Document [''{ a }''], text' = ''{ a }'', hash = 5, isGlobal = True\<rparr>)"
    by (simp add: free_tag_def production_def getGraphQLTag_def isGlobalIdentifier_def tryParse_def Let_def)
  have 2: "getGraphQLTag (murmurhash production) (parse production) page_query 7
     = Inr (Some \<lparr>ast = Document [''{ a }''], text' = ''{ a }'', hash = 5, isGlobal = False\<rparr>)"
    by (simp add: page_query_def production_def getGraphQLTag_def isGlobalIdentifier_def
          isGraphqlTag_def getTagImport_def parentPath_def node_at_def tryParse_def Let_def)
  from hash_of_text_only [OF 1 2] 1 2 show ?thesis by simp
qed

section \<open>Templates that are not queries\<close>



section \<open>Invariants of a traversal\<close>



section \<open>The binding resolver\<close>

lemma aliasOf_cycle [simp]:
  "aliasOf alias_cycle \<lparr>kind = ''var'', path = 2\<rparr> = Some ''y''"
  "aliasOf alias_cycle \<lparr>kind = ''var'', path = 6\<rparr> = Some ''x''"
  by (simp_all add: aliasOf_def alias_cycle_def node_at_def)

lemma getBinding_cycle [simp]:
  "getBinding alias_cycle 0 ''y'' = Some \<lparr>kind = ''var'', path = 6\<rparr>"
  "getBinding alias_cycle 0 ''x'' = Some \<lparr>kind = ''var'', path = 2\<rparr>"
  "scope alias_cycle p = 0"
  by (simp_all add: alias_cycle_def)







section \<open>Editing the tree: what a removal changes\<close>

lemma removeBinding_fields [simp]:
  "nodes (removeBinding s n st) = nodes st"
  "ancestors (removeBinding s n st) = ancestors st"
  "scope (removeBinding s n st) = scope st"
  "parentScopes (removeBinding s n st) = parentScopes st"
  "globals (removeBinding s n st) = globals st"
  "referenced (removeBinding s n st) = referenced st"
  "bindingIdentifiers (removeBinding s n st) = bindingIdentifiers st"
  "tagsToRemoveImportsFrom (removeBinding s n st) = tagsToRemoveImportsFrom st"
  "fresh (removeBinding s n st) = fresh st"
  by (simp_all add: removeBinding_def split: option.splits)

lemma fold_removeBinding_fields [simp]:
  "nodes (fold (removeBinding s) ns st) = nodes st"
  "ancestors (fold (removeBinding s) ns st) = ancestors st"
  "scope (fold (removeBinding s) ns st) = scope st"
  "parentScopes (fold (removeBinding s) ns st) = parentScopes st"
  "globals (fold (removeBinding s) ns st) = globals st"
  "referenced (fold (removeBinding s) ns st) = referenced st"
  "bindingIdentifiers (fold (removeBinding s) ns st) = bindingIdentifiers st"
  "tagsToRemoveImportsFrom (fold (removeBinding s) ns st) = tagsToRemoveImportsFrom st"
  "fresh (fold (removeBinding s) ns st) = fresh st"
  by (induction ns arbitrary: st; simp)+

lemma parentPath_fold_removeBinding [simp]:
  "parentPath (fold (removeBinding s) ns st) p = parentPath st p"
  by (simp add: parentPath_def)

lemma remove_fields [simp]:
  "ancestors (remove st p) = ancestors st"
  "scope (remove st p) = scope st"
  "parentScopes (remove st p) = parentScopes st"
  "globals (remove st p) = globals st"
  "referenced (remove st p) = referenced st"
  "bindingIdentifiers (remove st p) = bindingIdentifiers st"
  "tagsToRemoveImportsFrom (remove st p) = tagsToRemoveImportsFrom st"
  "fresh (remove st p) = fresh st"
  by (simp_all add: remove_def Let_def split: option.splits)

lemma nodes_remove:
  "nodes (remove st d) =
     (case parentPath st d of
        None \<Rightarrow> nodes st
      | Some q \<Rightarrow> (case nodes st q of None \<Rightarrow> nodes st | Some nd \<Rightarrow> (nodes st)(q \<mapsto> removeChild d nd)))
     (d := None)"
  by (simp add: remove_def Let_def split: option.splits)

lemma nodes_remove_self [simp]: "nodes (remove st d) d = None"
  by (simp add: nodes_remove)

lemma nodes_remove_other:
  "p \<noteq> d \<Longrightarrow> nodes (remove st d) p =
     (if parentPath st d = Some p then map_option (removeChild d) (nodes st p) else nodes st p)"
  by (auto simp add: nodes_remove split: option.splits)

lemma length_removeAll_distinct:
  "distinct xs \<Longrightarrow> x \<in> set xs \<Longrightarrow> length (removeAll x xs) = length xs - 1"
  by (simp add: distinct_remove1_removeAll [symmetric] length_remove1)

section \<open>The import pruner removes the minimal unit\<close>

text \<open>
  C6. Let \<open>removeImport\<close> process a tag whose backing import \<open>getTagImport\<close> finds at
  \<open>importPath\<close>, with parent \<open>parent\<close>. If the import is a named specifier, one of the
  N specifiers of its declaration, then for N = 1 the whole declaration is removed and
  otherwise the declaration stays with its other N - 1 specifiers. If it is a property of
  a destructuring pattern with N properties, then for N = 1 the enclosing variable
  declaration is removed and otherwise the pattern stays with its other N - 1 properties,
  inside a declaration that is left as it was.
\<close>

theorem removeImport_minimal_unit:
  assumes tag: "getTagImport st (case get_object (nodes st tag) of Some obj \<Rightarrow> obj | None \<Rightarrow> tag)
                  = Inr (Some importPath)"
      and parent: "parentPath st importPath = Some parent"
  shows "(nodes st importPath = Some (ImportSpecifier l i) \<and>
          nodes st parent = Some (ImportDeclaration specifiers source) \<and>
          importPath \<in> set specifiers \<and> distinct specifiers \<longrightarrow>
          (\<exists>st'. removeImport st tag = (Normal, st') \<and>
             (if length specifiers = 1 then nodes st' parent = None
              else nodes st' parent = Some (ImportDeclaration (removeAll importPath specifiers) source) \<and>
                   length (removeAll importPath specifiers) = length specifiers - 1 \<and>
                   nodes st' importPath = None))) \<and>
         (nodes st importPath = Some (ObjectProperty k v) \<and>
          nodes st parent = Some (ObjectPattern properties) \<and>
          importPath \<in> set properties \<and> distinct properties \<and>
          List.find (\<lambda>p. isVariableDeclaration (nodes st p)) (ancestors st importPath) = Some declaration \<longrightarrow>
          (\<exists>st'. removeImport st tag = (Normal, st') \<and>
             (if length properties = 1 then nodes st' declaration = None
              else nodes st' parent = Some (ObjectPattern (removeAll importPath properties)) \<and>
                   length (removeAll importPath properties) = length properties - 1 \<and>
                   nodes st' importPath = None \<and>
                   nodes st' declaration = nodes st declaration)))"
proof (intro conjI impI)
  assume a: "nodes st importPath = Some (ImportSpecifier l i) \<and>
          nodes st parent = Some (ImportDeclaration specifiers source) \<and>
          importPath \<in> set specifiers \<and> distinct specifiers"
  then have ne: "importPath \<noteq> parent" by auto
  show "\<exists>st'. removeImport st tag = (Normal, st') \<and>
             (if length specifiers = 1 then nodes st' parent = None
              else nodes st' parent = Some (ImportDeclaration (removeAll importPath specifiers) source) \<and>
                   length (removeAll importPath specifiers) = length specifiers - 1 \<and>
                   nodes st' importPath = None)"
  proof (cases "length specifiers = 1")
    case True
    have 1: "removeImportSpecifier st importPath = (Normal, remove st parent)"
      using a parent True by (simp add: removeImportSpecifier_def)
    have 2: "\<not> isObjectProperty (nodes (remove st parent) importPath)"
            "\<not> isIdentifier (nodes (remove st parent) importPath)"
      using a ne by (auto simp: nodes_remove_other)
    have "removeImport st tag = (Normal, remove st parent)"
      using tag 1 2 by (simp add: removeImport_def removeObjectProperty_def)
    with True show ?thesis by simp
  next
    case False
    have 1: "removeImportSpecifier st importPath = (Normal, remove st importPath)"
      using a parent False by (simp add: removeImportSpecifier_def)
    have "removeImport st tag = (Normal, remove st importPath)"
      using tag 1 by (simp add: removeImport_def removeObjectProperty_def)
    moreover have "nodes (remove st importPath) parent = Some (ImportDeclaration (removeAll importPath specifiers) source)"
      using a parent ne by (simp add: nodes_remove)
    ultimately show ?thesis using False a by (simp add: length_removeAll_distinct)
  qed
next
  assume a: "nodes st importPath = Some (ObjectProperty k v) \<and>
          nodes st parent = Some (ObjectPattern properties) \<and>
          importPath \<in> set properties \<and> distinct properties \<and>
          List.find (\<lambda>p. isVariableDeclaration (nodes st p)) (ancestors st importPath) = Some declaration"
  then have ne: "importPath \<noteq> parent" by auto
  from a have "isVariableDeclaration (nodes st declaration)"
    by (auto simp: find_Some_iff)
  with a have ned: "declaration \<noteq> importPath" "declaration \<noteq> parent" by auto
  have 0: "removeImportSpecifier st importPath = (Normal, st)"
    using a by (simp add: removeImportSpecifier_def)
  show "\<exists>st'. removeImport st tag = (Normal, st') \<and>
             (if length properties = 1 then nodes st' declaration = None
              else nodes st' parent = Some (ObjectPattern (removeAll importPath properties)) \<and>
                   length (removeAll importPath properties) = length properties - 1 \<and>
                   nodes st' importPath = None \<and>
                   nodes st' declaration = nodes st declaration)"
  proof (cases "length properties = 1")
    case True
    have 1: "removeObjectProperty st importPath = (Normal, remove st declaration)"
      using a parent True by (simp add: removeObjectProperty_def removeVariableDeclaration_def)
    have 2: "\<not> isIdentifier (nodes (remove st declaration) importPath)"
      using a ned by (auto simp: nodes_remove_other)
    have "removeImport st tag = (Normal, remove st declaration)"
      using tag 0 1 2 by (simp add: removeImport_def)
    with True show ?thesis by simp
  next
    case False
    have 1: "removeObjectProperty st importPath = (Normal, remove st importPath)"
      using a parent False by (simp add: removeObjectProperty_def)
    have "removeImport st tag = (Normal, remove st importPath)"
      using tag 0 1 by (simp add: removeImport_def)
    moreover have "nodes (remove st importPath) parent = Some (ObjectPattern (removeAll importPath properties))"
      using a parent ne by (simp add: nodes_remove)
    moreover have "nodes (remove st importPath) declaration = nodes st declaration"
      using a parent ned by (simp add: nodes_remove)
    ultimately show ?thesis using False a by (simp add: length_removeAll_distinct)
  qed
qed

theorem removeImport_minimal_unit_witness:
  "getTagImport two_specifiers 9 = Inr (Some 2) \<and> parentPath two_specifiers 2 = Some 1 \<and>
   nodes two_specifiers 1 = Some (ImportDeclaration [2, 3] ''gatsby'') \<and>
   (\<exists>st'. removeImport two_specifiers 9 = (Normal, st') \<and>
          nodes st' 1 = Some (ImportDeclaration [3] ''gatsby'') \<and> nodes st' 2 = None) \<and>
   getTagImport page_query 8 = Inr (Some 2) \<and> parentPath page_query 2 = Some 1 \<and>
   nodes page_query 1 = Some (ImportDeclaration [2] ''gatsby'') \<and>
   (\<exists>st'. removeImport page_query 8 = (Normal, st') \<and> nodes st' 1 = None) \<and>
   getTagImport require_one 12 = Inr (Some 4) \<and> parentPath require_one 4 = Some 3 \<and>
   nodes require_one 3 = Some (ObjectPattern [4]) \<and>
   nodes require_one 1 = Some (VariableDeclaration [2]) \<and>
   (\<exists>st'. removeImport require_one 12 = (Normal, st') \<and> nodes st' 1 = None)"
proof -
  have a1: "getTagImport two_specifiers
              (case get_object (nodes two_specifiers 9) of Some obj \<Rightarrow> obj | None \<Rightarrow> 9) = Inr (Some 2)"
    by (simp add: two_specifiers_def getTagImport_def parentPath_def node_at_def)
  have a2: "parentPath two_specifiers 2 = Some 1"
    by (simp add: two_specifiers_def parentPath_def)
  have a3: "nodes two_specifiers 2 = Some (ImportSpecifier ''graphql'' (Some ''graphql'')) \<and>
            nodes two_specifiers 1 = Some (ImportDeclaration [2, 3] ''gatsby'') \<and>
            2 \<in> set [2, 3 :: nat] \<and> distinct [2, 3 :: nat]"
    by (simp add: two_specifiers_def)
  have a4: "nodes two_specifiers 9 = Some (Identifier ''graphql'')"
    by (simp add: two_specifiers_def)
  have b1: "getTagImport page_query
              (case get_object (nodes page_query 8) of Some obj \<Rightarrow> obj | None \<Rightarrow> 8) = Inr (Some 2)"
    by (simp add: page_query_def getTagImport_def parentPath_def node_at_def)
  have b2: "parentPath page_query 2 = Some 1"
    by (simp add: page_query_def parentPath_def)
  have b3: "nodes page_query 2 = Some (ImportSpecifier ''graphql'' (Some ''graphql'')) \<and>
            nodes page_query 1 = Some (ImportDeclaration [2] ''gatsby'') \<and>
            2 \<in> set [2 :: nat] \<and> distinct [2 :: nat]"
    by (simp add: page_query_def)
  have b4: "nodes page_query 8 = Some (Identifier ''graphql'')"
    by (simp add: page_query_def)
  have c1: "getTagImport require_one
              (case get_object (nodes require_one 12) of Some obj \<Rightarrow> obj | None \<Rightarrow> 12) = Inr (Some 4)"
    by (simp add: require_one_def getTagImport_def parentPath_def node_at_def)
  have c2: "parentPath require_one 4 = Some 3"
    by (simp add: require_one_def parentPath_def)
  have c3: "nodes require_one 4 = Some (ObjectProperty 5 6) \<and>
            nodes require_one 3 = Some (ObjectPattern [4]) \<and>
            4 \<in> set [4 :: nat] \<and> distinct [4 :: nat] \<and>
            List.find (\<lambda>p. isVariableDeclaration (nodes require_one p)) (ancestors require_one 4) = Some 1"
    by (simp add: require_one_def)
  have c4: "nodes require_one 12 = Some (Identifier ''graphql'')"
       "nodes require_one 1 = Some (VariableDeclaration [2])"
    by (simp_all add: require_one_def)
  from removeImport_minimal_unit [OF a1 a2, THEN conjunct1, rule_format, OF a3]
       removeImport_minimal_unit [OF b1 b2, THEN conjunct1, rule_format, OF b3]
       removeImport_minimal_unit [OF c1 c2, THEN conjunct2, rule_format, OF c3]
       a1 a2 a3 a4 b1 b2 b3 b4 c1 c2 c3 c4
  show ?thesis by simp
qed

section \<open>What the injectors leave alone\<close>








section \<open>The injected identifier\<close>

text \<open>
  C8 (amended). In attribute mode the injector binds the new attribute and the default
  import it adds to the identifier named \<open>staticQueryData\<close>: the same name for every
  query, whatever the file already binds. The attribute \<open>data\<close> is appended to the
  element and the import is put first in the program.
\<close>

theorem attribute_injection_fixed_name:
  assumes "productionOrTest h"
      and "nodes st path2 = Some (JSXIdentifier ''StaticQuery'')"
      and "referencesImport st path2 ''gatsby'' []"
      and "parentPath st path2 = Some parent"
      and "nodes st parent = Some (JSXOpeningElement n attributes)"
      and "nodes st program = Some (Program body)"
      and "parent < fresh st" and "program < fresh st"
  shows "\<exists>st'. nestedJSXVistor h program queryHash path2 st = (Normal, st') \<and>
           nodes st' parent = Some (JSXOpeningElement n (attributes @ [fresh st + 3])) \<and>
           nodes st' (fresh st + 3) = Some (JSXAttribute (fresh st + 1) (Some (fresh st + 2))) \<and>
           nodes st' (fresh st + 1) = Some (JSXIdentifier ''data'') \<and>
           nodes st' (fresh st + 2) = Some (JSXExpressionContainer (fresh st)) \<and>
           nodes st' (fresh st) = Some (Identifier ''staticQueryData'') \<and>
           nodes st' program = Some (Program ((fresh st + 5) # body)) \<and>
           nodes st' (fresh st + 5) = Some (ImportDeclaration [fresh st + 4] (resultImportSource h queryHash)) \<and>
           nodes st' (fresh st + 4) = Some (ImportDefaultSpecifier ''staticQueryData'')"
proof -
  from assms(5,6) have "parent \<noteq> program" by auto
  with assms show ?thesis
    by (simp add: nestedJSXVistor_def node_at_def Let_def addImport_def unshiftContainer_def)
qed

theorem attribute_injection_fixed_name_witness:
  "productionOrTest production \<and>
   nodes two_static_queries 7 = Some (JSXIdentifier ''StaticQuery'') \<and>
   referencesImport two_static_queries 7 ''gatsby'' [] \<and>
   parentPath two_static_queries 7 = Some 6 \<and>
   nodes two_static_queries 6 = Some (JSXOpeningElement 7 [8]) \<and>
   nodes two_static_queries 0 = Some (Program [1, 4, 13]) \<and>
   fresh two_static_queries = 22 \<and>
   (\<exists>st'. nestedJSXVistor production 0 ''5'' 7 two_static_queries = (Normal, st') \<and>
          nodes st' 6 = Some (JSXOpeningElement 7 [8, 25]) \<and>
          nodes st' 22 = Some (Identifier ''staticQueryData'') \<and>
          nodes st' 0 = Some (Program [27, 1, 4, 13]) \<and>
          nodes st' 26 = Some (ImportDefaultSpecifier ''staticQueryData''))"
proof -
  have 1: "productionOrTest production" by (simp add: productionOrTest_def production_def)
  have 2: "nodes two_static_queries 7 = Some (JSXIdentifier ''StaticQuery'')"
    by (simp add: two_static_queries_def)
  have 3: "referencesImport two_static_queries 7 ''gatsby'' []"
    by (simp add: two_static_queries_def referencesImport_def parentPath_def node_at_def)
  have 4: "parentPath two_static_queries 7 = Some 6"
    by (simp add: two_static_queries_def parentPath_def)
  have 5: "nodes two_static_queries 6 = Some (JSXOpeningElement 7 [8])"
    by (simp add: two_static_queries_def)
  have 6: "nodes two_static_queries 0 = Some (Program [1, 4, 13])"
    by (simp add: two_static_queries_def)
  have 7: "fresh two_static_queries = 22" by (simp add: two_static_queries_def)
  have 8: "fresh two_static_queries > 6" "fresh two_static_queries > 0" using 7 by simp_all
  from attribute_injection_fixed_name [OF 1 2 3 4 5 6 8, of "''5''"] 1 2 3 4 5 6 7
  show ?thesis by auto
qed

section \<open>What the sweeps keep\<close>

























lemma parentPath_remove [simp]: "parentPath (remove s y) p = parentPath s p"
  by (simp add: parentPath_def)

lemma isImportSpecifier_removeChild [simp]:
  "isImportSpecifier (Some (removeChild y nd)) = isImportSpecifier (Some nd)"
  by (cases nd) simp_all


lemma removeChild_ImportSpecifier [simp]:
  "removeChild y (ImportSpecifier l i) = ImportSpecifier l i"
  by simp







lemma notImport_simps [simp]:
  "notImport None" "notImport (Some (Identifier x))" "notImport (Some (JSXIdentifier x))"
  "notImport (Some (StringLiteral x))" "notImport (Some (MemberExpression a b))"
  "notImport (Some (JSXOpeningElement n as))" "notImport (Some (Program body))"
  "notImport (Some (CallExpression c args))" "notImport (Some (TaggedTemplateExpression t qs es))"
  "notImport (Some (JSXExpressionContainer e))" "notImport (Some (JSXAttribute n v))"
  "\<not> notImport (Some (ImportSpecifier l i))" "\<not> notImport (Some (ImportDeclaration specs source))"
  by (simp_all add: notImport_def)

lemma notImport_removeChild [simp]: "notImport (Some (removeChild y nd)) = notImport (Some nd)"
  by (cases nd) (simp_all add: notImport_def)

lemma frame_refl [simp]: "frame s s"
  by (simp add: frame_def)
















section \<open>Import removal and the sweeps\<close>




section \<open>Two queries in one file\<close>

lemma two_static_queries_run:
  "(case Program_visitor 10 production 0 two_static_queries of
      Some (Normal, st') \<Rightarrow>
        nodes st' 0 = Some (Program [33, 27, 1, 4, 13]) \<and>
        nodes st' 27 = Some (ImportDeclaration [26] ''public/static/d/5.json'') \<and>
        nodes st' 26 = Some (ImportDefaultSpecifier ''staticQueryData'') \<and>
        nodes st' 33 = Some (ImportDeclaration [32] ''public/static/d/6.json'') \<and>
        nodes st' 32 = Some (ImportDefaultSpecifier ''staticQueryData'')
    | _ \<Rightarrow> False)"
  by code_simp

text \<open>
  C8 as stated fails: the identifier is not fresh. In a file with two \<open>StaticQuery\<close>
  elements, \<^verbatim>\<open><StaticQuery query={graphql`{ a }`} />\<close> and
  \<^verbatim>\<open><StaticQuery query={graphql`{ bb }`} />\<close>, the visitor of the program puts two default
  imports first in the program, one for each query, and both bind the same local name
  \<open>staticQueryData\<close>.
\<close>

theorem injected_names_collide_counterexample:
  "map_option fst (Program_visitor 10 production 0 two_static_queries) = Some Normal \<and>
   nodes (snd (the (Program_visitor 10 production 0 two_static_queries))) 0
     = Some (Program [33, 27, 1, 4, 13]) \<and>
   nodes (snd (the (Program_visitor 10 production 0 two_static_queries))) 27
     = Some (ImportDeclaration [26] ''public/static/d/5.json'') \<and>
   nodes (snd (the (Program_visitor 10 production 0 two_static_queries))) 26
     = Some (ImportDefaultSpecifier ''staticQueryData'') \<and>
   nodes (snd (the (Program_visitor 10 production 0 two_static_queries))) 33
     = Some (ImportDeclaration [32] ''public/static/d/6.json'') \<and>
   nodes (snd (the (Program_visitor 10 production 0 two_static_queries))) 32
     = Some (ImportDefaultSpecifier ''staticQueryData'')"
  using two_static_queries_run
  by (auto split: option.splits prod.splits outcome.splits)

section \<open>What an injector changes\<close>

lemma edited_refl [simp]: "edited s s"
  by (simp add: edited_def)

lemma addImport_fields [simp]:
  "ancestors (addImport h program q i s) = ancestors s"
  "scope (addImport h program q i s) = scope s"
  "parentScopes (addImport h program q i s) = parentScopes s"
  "bindings (addImport h program q i s) = bindings s"
  "globals (addImport h program q i s) = globals s"
  "referenced (addImport h program q i s) = referenced s"
  "bindingIdentifiers (addImport h program q i s) = bindingIdentifiers s"
  "tagsToRemoveImportsFrom (addImport h program q i s) = tagsToRemoveImportsFrom s"
  "fresh (addImport h program q i s) = fresh s + 2"
  by (simp_all add: addImport_def unshiftContainer_def Let_def split: option.splits node.splits)









lemma removeChild_same:
  "removeChild y nd = nd \<or>
   (\<exists>b. nd = Program b) \<or> (\<exists>sp src. nd = ImportDeclaration sp src) \<or>
   (\<exists>ds. nd = VariableDeclaration ds) \<or> (\<exists>ps. nd = ObjectPattern ps) \<or> (\<exists>t cs. nd = Other t cs)"
  by (cases nd) simp_all

lemma removeChild_Identifier [simp]:
  "(removeChild y nd = Identifier x) = (nd = Identifier x)"
  "(Identifier x = removeChild y nd) = (nd = Identifier x)"
  by (cases nd; auto)+

lemma removeChild_CallExpression [simp]:
  "(removeChild y nd = CallExpression c as) = (nd = CallExpression c as)"
  "(CallExpression c as = removeChild y nd) = (nd = CallExpression c as)"
  by (cases nd; auto)+






section \<open>The way down to a template\<close>



lemma changed_simps [simp]:
  "\<not> changed s None b"
  "\<not> changed s (Some (Identifier x)) b"
  "\<not> changed s (Some (StringLiteral k)) b"
  "\<not> changed s (Some (TaggedTemplateExpression t qs es)) b"
  "\<not> changed s (Some (ImportSpecifier l i)) b"
  "\<not> changed s (Some (ImportDeclaration sp src)) b"
  "\<not> changed s (Some (VariableDeclarator ident init)) b"
  by (simp_all add: changed_def)



lemma passable_removeChild [simp]: "passable (Some (removeChild y nd)) = passable (Some nd)"
  by (cases nd) simp_all



lemma rooted_refl [simp]: "rooted s s"
  by (simp add: rooted_def)




section \<open>The template of a global tag through the sweeps\<close>






lemma hasGlobal_remove [simp]: "hasGlobal (remove s y) sc n = hasGlobal s sc n"
  by (simp add: hasGlobal_def)





lemma set_add [simp]: "set (add x xs) = insert x (set xs)"
  by (auto simp: add_def)








section \<open>The last sweep reaches the template\<close>









section \<open>The import pruner leaves the substituted string\<close>








section \<open>The global tag\<close>








end
